theory Spec2Isabelle
  imports Complex_Main "HOL-Library.Char_ord" "HOL-Library.List_Lexorder"
begin

section \<open>Data model of the placement portal (server/src/index.js)\<close>

text \<open>
  The server keeps its tables in module-level arrays (\<open>users\<close>, \<open>studentProfiles\<close>,
  \<open>drives\<close>, \<open>applications\<close>, \<open>mentorshipSlots\<close>, \<open>mentorshipBookings\<close>) and hands out
  ids from counters. Each array is a list here, the whole collection is the record
  \<open>store\<close>, and every request handler is a function from the authenticated user id, the
  request parameters and the store to a response and the store it leaves behind.

  Numbers: \<open>cgpa\<close> and \<open>minCgpa\<close> are the results of \<open>parseFloat(x) || 0\<close>, so they are never
  NaN; they are modelled as reals. \<open>currentBacklogs\<close>, \<open>maxBacklogs\<close>, \<open>maxStudents\<close> and
  \<open>currentBookings\<close> come from \<open>parseInt\<close> or from counting and are integers. Status strings
  are the constructors of small datatypes. Timestamps (\<open>new Date().toISOString()\<close>) are
  passed in as parameters. A \<open>char\<close> is one of the code points U+0000 to U+00FF, so the
  strings of the model are the JavaScript strings over Latin-1.
\<close>

datatype error = Validation | NotFound | Conflict | InternalError

datatype driveStatus = ACTIVE | CLOSED
datatype appStatus = APPLIED | INTERVIEW_SCHEDULED | SELECTED | REJECTED
datatype slotStatus = AVAILABLE | FULL
datatype bookingStatus = CONFIRMED

record user =
  user_id :: nat
  user_name :: string
  user_email :: string

record studentProfile =
  userId :: nat
  branch :: string
  cgpa :: real
  currentBacklogs :: int
  skills :: "string list"
  experience :: string
  projects :: string
  education :: "string list"
  personalInfo :: "(string \<times> string) list"

record drive =
  drive_id :: nat
  companyName :: string
  roleTitle :: string
  drive_description :: string
  minCgpa :: real
  maxBacklogs :: int
  allowedBranches :: "string list"
  location :: string
  ctc :: string
  applicationDeadline :: "string option"
  createdBy :: nat
  drive_createdAt :: string
  drive_status :: driveStatus

record application =
  app_id :: nat
  driveId :: nat
  studentId :: nat
  app_status :: appStatus
  appliedAt :: string
  updatedAt :: string

record mentorshipSlot =
  slot_id :: nat
  alumniUserId :: nat
  slotStart :: string
  slotEnd :: string
  maxStudents :: int
  currentBookings :: int
  slot_description :: string
  slot_createdAt :: string
  slot_status :: slotStatus

record mentorshipBooking =
  booking_id :: nat
  slotId :: nat
  booking_studentId :: nat
  bookedAt :: string
  booking_status :: bookingStatus

record store =
  users :: "user list"
  studentProfiles :: "studentProfile list"
  drives :: "drive list"
  nextDriveId :: nat
  applications :: "application list"
  nextApplicationId :: nat
  mentorshipSlots :: "mentorshipSlot list"
  nextSlotId :: nat
  mentorshipBookings :: "mentorshipBooking list"
  nextBookingId :: nat

section \<open>Eligibility listings\<close>

text \<open>
  The filter callback of \<open>GET /api/tpo/drives/:driveId/eligible-students\<close> (lines 370-383):
  three early \<open>return false\<close>, then \<open>return true\<close>.
\<close>

definition eligibleStudentsFilter :: "drive \<Rightarrow> studentProfile \<Rightarrow> bool" where
  "eligibleStudentsFilter d p =
     (if cgpa p < minCgpa d then False
      else if currentBacklogs p > maxBacklogs d then False
      else if length (allowedBranches d) > 0 \<and> branch p \<notin> set (allowedBranches d) then False
      else True)"

text \<open>
  The filter callback of \<open>GET /api/students/eligible-drives\<close> (lines 455-468): the same
  three checks, then \<open>return drive.status === 'ACTIVE'\<close>.
\<close>

definition eligibleDrivesFilter :: "studentProfile \<Rightarrow> drive \<Rightarrow> bool" where
  "eligibleDrivesFilter p d =
     (if cgpa p < minCgpa d then False
      else if currentBacklogs p > maxBacklogs d then False
      else if length (allowedBranches d) > 0 \<and> branch p \<notin> set (allowedBranches d) then False
      else drive_status d = ACTIVE)"

record eligibleStudent =
  es_userId :: nat
  es_name :: string
  es_email :: string
  es_branch :: string
  es_cgpa :: real
  es_currentBacklogs :: int

definition eligibleStudentRow :: "store \<Rightarrow> studentProfile \<Rightarrow> eligibleStudent" where
  "eligibleStudentRow s p =
     (let u = find (\<lambda>u. user_id u = userId p) (users s) in
      \<lparr> es_userId = userId p,
        es_name = (case u of None \<Rightarrow> [] | Some u' \<Rightarrow> user_name u'),
        es_email = (case u of None \<Rightarrow> [] | Some u' \<Rightarrow> user_email u'),
        es_branch = branch p,
        es_cgpa = cgpa p,
        es_currentBacklogs = currentBacklogs p \<rparr>)"

text \<open>The response carries the drive id, the company name, the count and the rows.\<close>

definition eligibleStudentsFor ::
  "nat \<Rightarrow> store \<Rightarrow> error + (nat \<times> string \<times> nat \<times> eligibleStudent list)" where
  "eligibleStudentsFor did s =
     (case find (\<lambda>d. drive_id d = did) (drives s) of
        None \<Rightarrow> Inl NotFound
      | Some d \<Rightarrow>
          (let eligible = map (eligibleStudentRow s) (filter (eligibleStudentsFilter d) (studentProfiles s))
           in Inr (drive_id d, companyName d, length eligible, eligible)))"

text \<open>
  Each listed drive is annotated with \<open>hasApplied\<close> and \<open>applicationStatus\<close>; a missing
  profile or an empty branch gives the guidance message and no drives.
\<close>

definition eligibleDriveRow :: "nat \<Rightarrow> store \<Rightarrow> drive \<Rightarrow> drive \<times> bool \<times> appStatus option" where
  "eligibleDriveRow uid s d =
     (let a = find (\<lambda>a. driveId a = drive_id d \<and> studentId a = uid) (applications s)
      in (d, a \<noteq> None, map_option app_status a))"

definition eligibleDrivesFor ::
  "nat \<Rightarrow> store \<Rightarrow> string option \<times> (drive \<times> bool \<times> appStatus option) list" where
  "eligibleDrivesFor uid s =
     (case find (\<lambda>p. userId p = uid) (studentProfiles s) of
        None \<Rightarrow> (Some ''Please complete your profile first'', [])
      | Some p \<Rightarrow>
          if branch p = [] then (Some ''Please complete your profile first'', [])
          else (None, map (eligibleDriveRow uid s) (filter (eligibleDrivesFilter p) (drives s))))"

section \<open>Applications\<close>

text \<open>
  \<open>POST /api/students/drives/:driveId/apply\<close> (lines 488-520). The handler reads the clock
  twice, once for \<open>appliedAt\<close> and once for \<open>updatedAt\<close>; the two readings are the
  parameters \<open>now\<close> and \<open>now2\<close>.
\<close>

definition applyToDrive ::
  "nat \<Rightarrow> nat \<Rightarrow> string \<Rightarrow> string \<Rightarrow> store \<Rightarrow> (error + application) \<times> store" where
  "applyToDrive uid did now now2 s =
     (case find (\<lambda>d. drive_id d = did) (drives s) of
        None \<Rightarrow> (Inl NotFound, s)
      | Some d \<Rightarrow>
          (case find (\<lambda>a. driveId a = did \<and> studentId a = uid) (applications s) of
             Some existing \<Rightarrow> (Inl Conflict, s)
           | None \<Rightarrow>
               (let a = \<lparr> app_id = nextApplicationId s, driveId = did, studentId = uid,
                          app_status = APPLIED, appliedAt = now, updatedAt = now2 \<rparr>
                in (Inr a, s\<lparr> applications := applications s @ [a],
                              nextApplicationId := nextApplicationId s + 1 \<rparr>))))"

text \<open>The applications a student holds for a drive.\<close>

definition applicationsOf :: "nat \<Rightarrow> nat \<Rightarrow> store \<Rightarrow> application list" where
  "applicationsOf uid did s = filter (\<lambda>a. driveId a = did \<and> studentId a = uid) (applications s)"

section \<open>Student profile\<close>

text \<open>
  \<open>GET /api/students/profile\<close> (lines 262-283) answers with the stored profile or with an
  empty profile structure; it does not touch \<open>studentProfiles\<close>.
\<close>

definition getProfile :: "nat \<Rightarrow> store \<Rightarrow> studentProfile" where
  "getProfile uid s =
     (case find (\<lambda>p. userId p = uid) (studentProfiles s) of
        None \<Rightarrow> \<lparr> userId = uid, branch = [], cgpa = 0, currentBacklogs = 0, skills = [],
                  experience = [], projects = [], education = [],
                  personalInfo = [(''address'', []), (''linkedin'', []), (''github'', [])] \<rparr>
      | Some p \<Rightarrow> p)"

text \<open>
  \<open>PUT /api/students/profile\<close> (lines 286-316). The request body, after the conversions
  the handler applies to each field: \<open>body_cgpa\<close> is \<open>parseFloat(cgpa)\<close> and
  \<open>body_currentBacklogs\<close> is \<open>parseInt(currentBacklogs)\<close> (\<open>None\<close> for NaN), \<open>body_skills\<close> and
  \<open>body_education\<close> are \<open>Some\<close> when the field is an array, \<open>body_projects\<close> is the string (or
  the joined array).
\<close>

record profileBody =
  body_branch :: "string option"
  body_cgpa :: "real option"
  body_currentBacklogs :: "int option"
  body_skills :: "string list option"
  body_experience :: "string option"
  body_projects :: "string option"
  body_education :: "string list option"
  body_personalInfo :: "(string \<times> string) list option"

datatype exn = ReferenceError string

text \<open>
  Line 288 binds exactly these names from \<open>req.body\<close>. The module binds no \<open>experience\<close>
  either, and the file is an ES module (strict mode), so reading any other name raises
  a ReferenceError.
\<close>

definition updateProfile_scope :: "string list" where
  "updateProfile_scope =
     [''branch'', ''cgpa'', ''currentBacklogs'', ''skills'', ''projects'', ''education'', ''personalInfo'']"

text \<open>Reading the identifier \<open>x\<close>, whose binding (if there is one) holds \<open>v\<close>.\<close>

definition ident :: "string \<Rightarrow> 'a \<Rightarrow> exn + 'a" where
  "ident x v = (if x \<in> set updateProfile_scope then Inr v else Inl (ReferenceError x))"

definition bind_exn :: "exn + 'a \<Rightarrow> ('a \<Rightarrow> exn + 'b) \<Rightarrow> exn + 'b" where
  "bind_exn m f = (case m of Inl e \<Rightarrow> Inl e | Inr v \<Rightarrow> f v)"

definition orEmpty :: "'a list option \<Rightarrow> 'a list" where
  "orEmpty x = (case x of None \<Rightarrow> [] | Some v \<Rightarrow> v)"

text \<open>
  The object literal of lines 291-302; its property values are evaluated in order.
  (\<open>updatedAt\<close> and \<open>createdAt\<close> are not part of the record.)
\<close>

definition buildProfile :: "nat \<Rightarrow> profileBody \<Rightarrow> exn + studentProfile" where
  "buildProfile uid b =
     bind_exn (ident ''branch'' (body_branch b)) (\<lambda>v_branch.
     bind_exn (ident ''cgpa'' (body_cgpa b)) (\<lambda>v_cgpa.
     bind_exn (ident ''currentBacklogs'' (body_currentBacklogs b)) (\<lambda>v_backlogs.
     bind_exn (ident ''skills'' (body_skills b)) (\<lambda>v_skills.
     bind_exn (ident ''experience'' (body_experience b)) (\<lambda>v_experience.
     bind_exn (ident ''projects'' (body_projects b)) (\<lambda>v_projects.
     bind_exn (ident ''education'' (body_education b)) (\<lambda>v_education.
     bind_exn (ident ''personalInfo'' (body_personalInfo b)) (\<lambda>v_personalInfo.
       Inr \<lparr> userId = uid,
             branch = orEmpty v_branch,
             cgpa = (case v_cgpa of None \<Rightarrow> 0 | Some c \<Rightarrow> c),
             currentBacklogs = (case v_backlogs of None \<Rightarrow> 0 | Some n \<Rightarrow> n),
             skills = orEmpty v_skills,
             experience = orEmpty v_experience,
             projects = orEmpty v_projects,
             education = orEmpty v_education,
             personalInfo = orEmpty v_personalInfo \<rparr>))))))))"

fun findIndex :: "('a \<Rightarrow> bool) \<Rightarrow> 'a list \<Rightarrow> nat option" where
  "findIndex P [] = None"
| "findIndex P (x # xs) = (if P x then Some 0 else map_option Suc (findIndex P xs))"

text \<open>The handler; an exception in the \<open>try\<close> block is answered with status 500.\<close>

definition updateProfile :: "nat \<Rightarrow> profileBody \<Rightarrow> store \<Rightarrow> (error + studentProfile) \<times> store" where
  "updateProfile uid b s =
     (let existingIndex = findIndex (\<lambda>p. userId p = uid) (studentProfiles s) in
      case buildProfile uid b of
        Inl e \<Rightarrow> (Inl InternalError, s)
      | Inr profile \<Rightarrow>
          (case existingIndex of
             Some i \<Rightarrow> (Inr profile, s\<lparr> studentProfiles := (studentProfiles s)[i := profile] \<rparr>)
           | None \<Rightarrow> (Inr profile, s\<lparr> studentProfiles := studentProfiles s @ [profile] \<rparr>)))"

section \<open>Mentorship slots\<close>

text \<open>
  \<open>POST /api/alumni/mentorship-slots\<close> (lines 625-651). \<open>slotStart\<close> and \<open>slotEnd\<close> are the
  body fields (\<open>None\<close> when absent); the parameter \<open>maxStudentsParsed\<close> is
  \<open>parseInt(maxStudents)\<close>, \<open>None\<close> for NaN.
\<close>

definition falsy :: "string option \<Rightarrow> bool" where
  "falsy x = (case x of None \<Rightarrow> True | Some v \<Rightarrow> v = [])"

definition createSlot ::
  "nat \<Rightarrow> string option \<Rightarrow> string option \<Rightarrow> int option \<Rightarrow> string option \<Rightarrow> string \<Rightarrow> store
     \<Rightarrow> (error + mentorshipSlot) \<times> store" where
  "createSlot uid startIn endIn maxStudentsParsed descr now s =
     (if falsy startIn \<or> falsy endIn then (Inl Validation, s)
      else
        (let slot = \<lparr> slot_id = nextSlotId s,
                      alumniUserId = uid,
                      slotStart = orEmpty startIn,
                      slotEnd = orEmpty endIn,
                      maxStudents = (case maxStudentsParsed of None \<Rightarrow> 1
                                     | Some m \<Rightarrow> if m = 0 then 1 else m),
                      currentBookings = 0,
                      slot_description = orEmpty descr,
                      slot_createdAt = now,
                      slot_status = AVAILABLE \<rparr>
         in (Inr slot, s\<lparr> mentorshipSlots := mentorshipSlots s @ [slot],
                          nextSlotId := nextSlotId s + 1 \<rparr>)))"

text \<open>
  \<open>find\<close> returns the slot object itself, and the handler mutates it in place: the first
  element of the array that satisfies the predicate is replaced.
\<close>

fun update_first :: "('a \<Rightarrow> bool) \<Rightarrow> ('a \<Rightarrow> 'a) \<Rightarrow> 'a list \<Rightarrow> 'a list" where
  "update_first P f [] = []"
| "update_first P f (x # xs) = (if P x then f x # xs else x # update_first P f xs)"

text \<open>The two statements \<open>slot.currentBookings++\<close> and the conditional \<open>slot.status = 'FULL'\<close>.\<close>

definition bookedSlot :: "mentorshipSlot \<Rightarrow> mentorshipSlot" where
  "bookedSlot slot =
     (let slot1 = slot\<lparr> currentBookings := currentBookings slot + 1 \<rparr>
      in if currentBookings slot1 \<ge> maxStudents slot1 then slot1\<lparr> slot_status := FULL \<rparr> else slot1)"

text \<open>\<open>POST /api/mentorship/slots/:slotId/book\<close> (lines 689-730).\<close>

definition bookSlot :: "nat \<Rightarrow> nat \<Rightarrow> string \<Rightarrow> store \<Rightarrow> (error + mentorshipBooking) \<times> store" where
  "bookSlot uid sid now s =
     (case find (\<lambda>sl. slot_id sl = sid) (mentorshipSlots s) of
        None \<Rightarrow> (Inl NotFound, s)
      | Some slot \<Rightarrow>
          if slot_status slot \<noteq> AVAILABLE \<or> currentBookings slot \<ge> maxStudents slot
          then (Inl Validation, s)
          else
            (case find (\<lambda>b. slotId b = sid \<and> booking_studentId b = uid) (mentorshipBookings s) of
               Some existing \<Rightarrow> (Inl Conflict, s)
             | None \<Rightarrow>
                 (let booking = \<lparr> booking_id = nextBookingId s, slotId = sid,
                                  booking_studentId = uid, bookedAt = now,
                                  booking_status = CONFIRMED \<rparr>
                  in (Inr booking,
                      s\<lparr> mentorshipBookings := mentorshipBookings s @ [booking],
                         nextBookingId := nextBookingId s + 1,
                         mentorshipSlots :=
                           update_first (\<lambda>sl. slot_id sl = sid) bookedSlot (mentorshipSlots s) \<rparr>))))"

text \<open>Sequences of slot creations and bookings, run from a store.\<close>

datatype slot_op =
    CreateSlot nat "string option" "string option" "int option" "string option" string
  | BookSlot nat nat string

fun slot_step :: "store \<Rightarrow> slot_op \<Rightarrow> store" where
  "slot_step s (CreateSlot uid startIn endIn m descr now) =
     snd (createSlot uid startIn endIn m descr now s)"
| "slot_step s (BookSlot uid sid now) = snd (bookSlot uid sid now s)"

definition run_slot_ops :: "store \<Rightarrow> slot_op list \<Rightarrow> store" where
  "run_slot_ops s ops = foldl slot_step s ops"

text \<open>The slot invariant as the data model of the spec words it.\<close>

definition slot_invariant :: "mentorshipSlot \<Rightarrow> bool" where
  "slot_invariant sl =
     (maxStudents sl \<ge> 1 \<and> slotEnd sl > slotStart sl \<and>
      0 \<le> currentBookings sl \<and> currentBookings sl \<le> maxStudents sl \<and>
      slot_status sl = (if currentBookings sl = maxStudents sl then FULL else AVAILABLE))"

text \<open>The store of a freshly started server, without the seeded demo students.\<close>

definition empty_store :: store where
  "empty_store = \<lparr> users = [], studentProfiles = [], drives = [], nextDriveId = 1,
                    applications = [], nextApplicationId = 1,
                    mentorshipSlots = [], nextSlotId = 1,
                    mentorshipBookings = [], nextBookingId = 1 \<rparr>"

section \<open>PlacementBot\<close>

text \<open>The FAQ corpus is the constant array \<open>faqs\<close> (lines 76-82).\<close>

record faq =
  faq_id :: nat
  question :: string
  answer :: string
  tags :: "string list"
  category :: string

definition faqs :: "faq list" where
  "faqs =
   [\<lparr> faq_id = 1, question = ''What is the minimum CGPA requirement?'',
      answer = ''The minimum CGPA requirement varies by company. Most companies require a minimum of 7.0 CGPA, but some may accept lower. Check individual drive details for specific requirements.'',
      tags = [''cgpa'', ''requirement'', ''eligibility''], category = ''eligibility'' \<rparr>,
    \<lparr> faq_id = 2, question = ''Can I apply with backlogs?'',
      answer = ''Some companies allow applications with backlogs, typically up to 2-3 active backlogs. Check the drive details for the maximum allowed backlogs.'',
      tags = [''backlogs'', ''eligibility''], category = ''eligibility'' \<rparr>,
    \<lparr> faq_id = 3, question = ''When is the interview scheduled?'',
      answer = ''Interview dates are typically communicated via email/SMS after you apply. Check your Application Tracker for the latest status and interview schedule.'',
      tags = [''interview'', ''schedule'', ''date''], category = ''application'' \<rparr>,
    \<lparr> faq_id = 4, question = ''Where will the interview be conducted?'',
      answer = ''Interview venues are usually communicated along with the interview schedule. Most interviews are conducted on campus, but some companies may conduct online interviews. Check your application details for venue information.'',
      tags = [''venue'', ''location'', ''interview''], category = ''application'' \<rparr>,
    \<lparr> faq_id = 5, question = ''How do I check my application status?'',
      answer = ''You can check your application status in the Application Tracker section of your dashboard. It will show whether your application is Applied, Interview Scheduled, Selected, or Rejected.'',
      tags = [''status'', ''application'', ''tracker''], category = ''application'' \<rparr>]"

definition fallbackAnswer :: string where
  "fallbackAnswer = ''I couldn't find a specific answer to your question. Please contact the Placement Office for assistance.''"

text \<open>
  \<open>String.prototype.toLowerCase\<close> on the code points up to U+00FF: the capitals are A to Z
  (65 to 90) and the Latin-1 capitals U+00C0 to U+00DE without the multiplication sign
  U+00D7; each has its small letter 32 places further on.
\<close>

definition toLowerChar :: "char \<Rightarrow> char" where
  "toLowerChar c =
     (let n = (of_char c :: nat)
      in if (65 \<le> n \<and> n \<le> 90) \<or> (192 \<le> n \<and> n \<le> 214) \<or> (216 \<le> n \<and> n \<le> 222)
         then char_of (n + 32) else c)"

definition toLowerCase :: "string \<Rightarrow> string" where
  "toLowerCase str = map toLowerChar str"

text \<open>
  \<open>query.split(/\s+/)\<close>: the pieces between maximal runs of whitespace. A run at the start
  or at the end of the string leaves an empty piece there, and the empty string splits
  into one empty piece. \<open>inSep\<close> tells that the previous character was whitespace, \<open>cur\<close> is
  the current piece, reversed. The class \<open>\s\<close> holds, up to U+00FF, the tab, line feed,
  vertical tab, form feed, carriage return (9 to 13), the space (32) and the no-break
  space U+00A0 (160).
\<close>

definition is_space :: "char \<Rightarrow> bool" where
  "is_space c = ((of_char c :: nat) \<in> set [9, 10, 11, 12, 13, 32, 160])"

fun splitFrom :: "bool \<Rightarrow> string \<Rightarrow> string \<Rightarrow> string list" where
  "splitFrom inSep cur [] = [rev cur]"
| "splitFrom inSep cur (c # cs) =
     (if is_space c then (if inSep then splitFrom True cur cs else rev cur # splitFrom True [] cs)
      else splitFrom False (c # cur) cs)"

definition splitWhitespace :: "string \<Rightarrow> string list" where
  "splitWhitespace str = splitFrom False [] str"

text \<open>\<open>str.includes(sub)\<close>: \<open>sub\<close> occurs in \<open>str\<close> as a contiguous piece.\<close>

fun startsWith :: "string \<Rightarrow> string \<Rightarrow> bool" where
  "startsWith str [] = True"
| "startsWith [] (y # ys) = False"
| "startsWith (x # xs) (y # ys) = (x = y \<and> startsWith xs ys)"

fun includesStr :: "string \<Rightarrow> string \<Rightarrow> bool" where
  "includesStr [] sub = (sub = [])"
| "includesStr (c # cs) sub = (startsWith (c # cs) sub \<or> includesStr cs sub)"

text \<open>The body of the \<open>map\<close> callback (lines 753-768): two \<open>forEach\<close> loops add to \<open>score\<close>.\<close>

definition faqScore :: "string \<Rightarrow> faq \<Rightarrow> nat" where
  "faqScore query f =
     (let questionWords = splitWhitespace query;
          score1 = foldl (\<lambda>score tag. if includesStr query (toLowerCase tag) then score + 2 else score)
                     0 (tags f);
          score2 = foldl (\<lambda>score word. if includesStr (toLowerCase (question f)) word
                                         then score + 1 else score)
                     score1 questionWords
      in score2)"

text \<open>
  \<open>.map(...).filter(faq => faq.score > 0).sort((a, b) => b.score - a.score)\<close>. The engine's
  sort is stable; \<open>sort_key\<close> is the stable sort by ascending key, here the negated score.
\<close>

definition matchedFAQs :: "faq list \<Rightarrow> string \<Rightarrow> (faq \<times> nat) list" where
  "matchedFAQs corpus query =
     sort_key (\<lambda>(f, score). - int score)
       (filter (\<lambda>(f, score). score > 0) (map (\<lambda>f. (f, faqScore query f)) corpus))"

text \<open>
  The fallback lists whole FAQ objects (\<open>faqs.slice(0, 3)\<close>), a match lists
  \<open>{question, answer}\<close> pairs.
\<close>

datatype related = FullFAQ faq | QuestionAnswer string string

definition botAsk :: "faq list \<Rightarrow> string \<Rightarrow> error + (string \<times> related list)" where
  "botAsk corpus q =
     (if q = [] then Inl Validation
      else
        (case matchedFAQs corpus (toLowerCase q) of
           [] \<Rightarrow> Inr (fallbackAnswer, map FullFAQ (take 3 corpus))
         | bestMatch # rest \<Rightarrow>
             Inr (answer (fst bestMatch),
                  map (\<lambda>(f, score). QuestionAnswer (question f) (answer f)) (take 3 rest))))"

text \<open>
  The matcher as section 4.5 of the spec words it, for comparison. The tokens of a
  question are its whitespace-delimited words, none of them empty. The score adds 2 per
  tag that is a substring of the lower-cased question and 1 per token that is a substring
  of the lower-cased FAQ question. All FAQs are ranked by descending score, ties in corpus
  order; without a positive score the fallback and the first three FAQs are returned,
  otherwise the answer of rank 1 and the FAQs of ranks 2 to 4.
\<close>

fun tokensFrom :: "string \<Rightarrow> string \<Rightarrow> string list" where
  "tokensFrom cur [] = (if cur = [] then [] else [rev cur])"
| "tokensFrom cur (c # cs) =
     (if is_space c then (if cur = [] then tokensFrom [] cs else rev cur # tokensFrom [] cs)
      else tokensFrom (c # cur) cs)"

definition tokens_spec :: "string \<Rightarrow> string list" where
  "tokens_spec str = tokensFrom [] str"

definition faqScore_spec :: "string \<Rightarrow> faq \<Rightarrow> nat" where
  "faqScore_spec query f =
     2 * length (filter (\<lambda>tag. includesStr query tag) (tags f))
     + length (filter (\<lambda>token. includesStr (toLowerCase (question f)) token) (tokens_spec query))"

definition rankedFAQs_spec :: "faq list \<Rightarrow> string \<Rightarrow> faq list" where
  "rankedFAQs_spec corpus query = sort_key (\<lambda>f. - int (faqScore_spec query f)) corpus"

definition botAsk_spec :: "faq list \<Rightarrow> string \<Rightarrow> error + (string \<times> related list)" where
  "botAsk_spec corpus q =
     (if q = [] then Inl Validation
      else if list_all (\<lambda>f. faqScore_spec (toLowerCase q) f = 0) corpus
      then Inr (fallbackAnswer, map FullFAQ (take 3 corpus))
      else
        (case rankedFAQs_spec corpus (toLowerCase q) of
           [] \<Rightarrow> Inr (fallbackAnswer, [])
         | best # rest \<Rightarrow>
             Inr (answer best, map (\<lambda>f. QuestionAnswer (question f) (answer f)) (take 3 rest))))"

text \<open>
  The ranking of the items that score above zero: by descending score, items of equal
  score in their original order. \<open>rankedMatches\<close> ranks the FAQs of a corpus by the score
  of section 4.5.
\<close>

definition rankedBy :: "('a \<Rightarrow> nat) \<Rightarrow> 'a list \<Rightarrow> 'a list" where
  "rankedBy score xs = sort_key (\<lambda>x. - int (score x)) (filter (\<lambda>x. 0 < score x) xs)"

definition rankedMatches :: "faq list \<Rightarrow> string \<Rightarrow> faq list" where
  "rankedMatches corpus query = rankedBy (faqScore_spec query) corpus"

section \<open>Analytics\<close>

text \<open>
  \<open>branchStats\<close> is a plain object used as a dictionary (lines 807-819), modelled as a map
  from the branch name to the pair (total, placed). A plain object inherits the members
  of \<open>Object.prototype\<close>: for a branch with one of these names \<open>branchStats[branch]\<close> is
  already truthy, no bucket is created, and the two increments land on the inherited
  member instead of on \<open>branchStats\<close>.
\<close>

definition objectPrototypeKeys :: "string list" where
  "objectPrototypeKeys =
     [''constructor'', ''__defineGetter__'', ''__defineSetter__'', ''hasOwnProperty'',
      ''__lookupGetter__'', ''__lookupSetter__'', ''isPrototypeOf'', ''propertyIsEnumerable'',
      ''toString'', ''valueOf'', ''__proto__'', ''toLocaleString'']"

text \<open>\<open>profile.branch || 'Unknown'\<close>\<close>

definition branchOf :: "studentProfile \<Rightarrow> string" where
  "branchOf profile = (if branch profile = [] then ''Unknown'' else branch profile)"

definition branchStep ::
  "application list \<Rightarrow> (string \<rightharpoonup> nat \<times> nat) \<Rightarrow> studentProfile \<Rightarrow> (string \<rightharpoonup> nat \<times> nat)" where
  "branchStep apps stats profile =
     (let b = branchOf profile in
      if b \<in> set objectPrototypeKeys then stats
      else
        (let bucket = (case stats b of None \<Rightarrow> (0, 0) | Some tp \<Rightarrow> tp);
             studentApps = filter (\<lambda>a. studentId a = userId profile \<and> app_status a = SELECTED) apps
         in stats(b \<mapsto> (fst bucket + 1,
                          if length studentApps > 0 then snd bucket + 1 else snd bucket))))"

definition branchStats :: "store \<Rightarrow> (string \<rightharpoonup> nat \<times> nat)" where
  "branchStats s = foldl (branchStep (applications s)) Map.empty (studentProfiles s)"

text \<open>
  \<open>GET /api/analytics/stats\<close> (lines 799-833). \<open>placementRate\<close> is the quotient before
  \<open>toFixed(2)\<close> formats it.
\<close>

record statsResponse =
  totalStudents :: nat
  totalDrives :: nat
  totalApplications :: nat
  selectedCount :: nat
  placementRate :: real
  stats_branchStats :: "string \<rightharpoonup> nat \<times> nat"

definition analyticsStats :: "store \<Rightarrow> statsResponse" where
  "analyticsStats s =
     (let nStudents = length (studentProfiles s);
          nSelected = length (filter (\<lambda>a. app_status a = SELECTED) (applications s))
      in \<lparr> totalStudents = nStudents,
           totalDrives = length (drives s),
           totalApplications = length (applications s),
           selectedCount = nSelected,
           placementRate = (if nStudents > 0 then real nSelected / real nStudents * 100 else 0),
           stats_branchStats = branchStats s \<rparr>)"

text \<open>
  \<open>GET /api/analytics/skill-gap\<close> (lines 836-873). \<open>skillFrequency\<close> is a plain object. Its
  own properties are an association list in insertion order, and
  \<open>skillFrequency[k] = (skillFrequency[k] || 0) + 1\<close> adds one to the count of \<open>k\<close> or
  inserts \<open>k\<close> with count one. Two keys are special, because a plain object inherits them
  as truthy members of \<open>Object.prototype\<close> (the keys are lower-cased, so no other
  inherited name can occur): an assignment of a non-object to \<open>__proto__\<close> is ignored, so
  that key never becomes a property; and the first read of \<open>constructor\<close> yields the
  inherited function, so its count becomes a string and not a number. The model leaves
  the second case out: it is exact for stores in which no placed student lists a skill
  that lower-cases to \<open>constructor\<close>.
\<close>

fun bumpSkill :: "string \<Rightarrow> (string \<times> nat) list \<Rightarrow> (string \<times> nat) list" where
  "bumpSkill k [] = [(k, 1)]"
| "bumpSkill k ((k', n) # rest) = (if k = k' then (k', n + 1) # rest else (k', n) # bumpSkill k rest)"

definition countSkill :: "string \<Rightarrow> (string \<times> nat) list \<Rightarrow> (string \<times> nat) list" where
  "countSkill k freq = (if k = ''__proto__'' then freq else bumpSkill k freq)"

text \<open>
  \<open>Object.entries\<close> lists the properties whose key is an array index (the decimal numeral,
  without leading zeros, of an integer up to 2^32 - 2) first, by ascending index, and then
  the other properties in insertion order.
\<close>

definition isDigit :: "char \<Rightarrow> bool" where
  "isDigit c = (48 \<le> (of_char c :: nat) \<and> (of_char c :: nat) \<le> 57)"

definition decimalValue :: "string \<Rightarrow> nat" where
  "decimalValue k = foldl (\<lambda>n c. 10 * n + (of_char c - 48)) 0 k"

definition isArrayIndex :: "string \<Rightarrow> bool" where
  "isArrayIndex k =
     (k \<noteq> [] \<and> list_all isDigit k \<and> (length k = 1 \<or> hd k \<noteq> CHR ''0'')
      \<and> decimalValue k \<le> 4294967294)"

definition objectEntries :: "(string \<times> 'v) list \<Rightarrow> (string \<times> 'v) list" where
  "objectEntries props =
     sort_key (\<lambda>(k, v). decimalValue k) (filter (\<lambda>(k, v). isArrayIndex k) props)
     @ filter (\<lambda>(k, v). \<not> isArrayIndex k) props"

text \<open>One entry per SELECTED application whose student has a profile.\<close>

definition placedStudents :: "store \<Rightarrow> studentProfile list" where
  "placedStudents s =
     List.map_filter (\<lambda>a. find (\<lambda>p. userId p = studentId a) (studentProfiles s))
       (filter (\<lambda>a. app_status a = SELECTED) (applications s))"

definition skillFrequency :: "studentProfile list \<Rightarrow> (string \<times> nat) list" where
  "skillFrequency students =
     foldl (\<lambda>freq student. foldl (\<lambda>freq' skill. countSkill (toLowerCase skill) freq') freq (skills student))
       [] students"

text \<open>
  \<open>percentage\<close> is the quotient before \<open>toFixed(1)\<close> formats it; the recommendation sentence
  is built from the same quotient and the skill.
\<close>

record recommendation =
  rec_skill :: string
  rec_frequency :: nat
  rec_percentage :: real

definition skillGap :: "nat \<Rightarrow> store \<Rightarrow> recommendation list" where
  "skillGap uid s =
     (case find (\<lambda>p. userId p = uid) (studentProfiles s) of
        None \<Rightarrow> []
      | Some profile \<Rightarrow>
          (let placed = placedStudents s;
               freq = skillFrequency placed;
               studentSkills = map toLowerCase (skills profile)
           in map (\<lambda>(skill, count).
                     \<lparr> rec_skill = skill, rec_frequency = count,
                       rec_percentage = real count / real (length placed) * 100 \<rparr>)
                (take 5 (sort_key (\<lambda>(skill, count). - int count)
                           (filter (\<lambda>(skill, count). skill \<notin> set studentSkills)
                              (objectEntries freq))))))"

section \<open>Concrete stores used to exercise the theorems\<close>

text \<open>A closed drive whose deadline has passed, and a student who meets none of its criteria.\<close>

definition closed_drive :: drive where
  "closed_drive = \<lparr> drive_id = 1, companyName = ''Acme'', roleTitle = ''Engineer'',
                     drive_description = [], minCgpa = 9, maxBacklogs = 0,
                     allowedBranches = [''CS''], location = [], ctc = [],
                     applicationDeadline = Some ''2000-01-01'', createdBy = 1,
                     drive_createdAt = ''1999-12-01T00:00:00.000Z'', drive_status = CLOSED \<rparr>"

definition weak_student :: studentProfile where
  "weak_student = \<lparr> userId = 7, branch = ''IT'', cgpa = 5, currentBacklogs = 3, skills = [],
                     experience = [], projects = [], education = [], personalInfo = [] \<rparr>"

definition closed_store :: store where
  "closed_store = empty_store\<lparr> drives := [closed_drive], studentProfiles := [weak_student] \<rparr>"

text \<open>Slot creations: capacity two, capacity one, an end before the start, a negative capacity.\<close>

definition slot_two :: slot_op where
  "slot_two = CreateSlot 1 (Some ''2025-01-01T10:00'') (Some ''2025-01-01T11:00'') (Some 2) None ''t0''"

definition slot_one :: slot_op where
  "slot_one = CreateSlot 1 (Some ''2025-01-01T10:00'') (Some ''2025-01-01T11:00'') (Some 1) None ''t0''"

definition slot_backwards :: slot_op where
  "slot_backwards = CreateSlot 1 (Some ''2025-01-02T10:00'') (Some ''2025-01-01T10:00'') (Some 2) None ''t0''"

definition slot_negative :: slot_op where
  "slot_negative = CreateSlot 1 (Some ''2025-01-01T10:00'') (Some ''2025-01-01T11:00'') (Some (- 5)) None ''t0''"

text \<open>
  What \<open>createSlot\<close> and \<open>book\<close> do keep of the slot invariant: bookings are never negative,
  the capacity is never zero, every slot is FULL exactly when its bookings equal its
  capacity and AVAILABLE otherwise, and a slot with a positive capacity is never
  overbooked.
\<close>

definition slot_invariant_kept :: "mentorshipSlot \<Rightarrow> bool" where
  "slot_invariant_kept sl =
     (0 \<le> currentBookings sl \<and> maxStudents sl \<noteq> 0 \<and>
      slot_status sl = (if currentBookings sl = maxStudents sl then FULL else AVAILABLE) \<and>
      (1 \<le> maxStudents sl \<longrightarrow> currentBookings sl \<le> maxStudents sl))"

text \<open>Whether a student has at least one SELECTED application.\<close>

definition hasSelected :: "application list \<Rightarrow> studentProfile \<Rightarrow> bool" where
  "hasSelected apps profile =
     list_ex (\<lambda>a. studentId a = userId profile \<and> app_status a = SELECTED) apps"

text \<open>
  Three students: student 1 is selected by two drives, student 2 by one, student 3 by
  none. In the second store the only placed student lists one skill twice, in two
  spellings.
\<close>

definition placed_twice_store :: store where
  "placed_twice_store = empty_store\<lparr>
     studentProfiles :=
       [\<lparr> userId = 1, branch = ''CS'', cgpa = 8, currentBacklogs = 0, skills = [''Python''],
          experience = [], projects = [], education = [], personalInfo = [] \<rparr>,
        \<lparr> userId = 2, branch = ''CS'', cgpa = 8, currentBacklogs = 0, skills = [''Java''],
          experience = [], projects = [], education = [], personalInfo = [] \<rparr>,
        \<lparr> userId = 3, branch = ''IT'', cgpa = 8, currentBacklogs = 0, skills = [],
          experience = [], projects = [], education = [], personalInfo = [] \<rparr>],
     applications :=
       [\<lparr> app_id = 1, driveId = 1, studentId = 1, app_status = SELECTED,
          appliedAt = ''t1'', updatedAt = ''t4'' \<rparr>,
        \<lparr> app_id = 2, driveId = 2, studentId = 1, app_status = SELECTED,
          appliedAt = ''t2'', updatedAt = ''t5'' \<rparr>,
        \<lparr> app_id = 3, driveId = 1, studentId = 2, app_status = SELECTED,
          appliedAt = ''t3'', updatedAt = ''t6'' \<rparr>],
     nextApplicationId := 4 \<rparr>"

definition repeated_skill_store :: store where
  "repeated_skill_store = empty_store\<lparr>
     studentProfiles :=
       [\<lparr> userId = 1, branch = ''CS'', cgpa = 8, currentBacklogs = 0, skills = [''JS'', ''js''],
          experience = [], projects = [], education = [], personalInfo = [] \<rparr>,
        \<lparr> userId = 3, branch = ''IT'', cgpa = 8, currentBacklogs = 0, skills = [],
          experience = [], projects = [], education = [], personalInfo = [] \<rparr>],
     applications :=
       [\<lparr> app_id = 1, driveId = 1, studentId = 1, app_status = SELECTED,
          appliedAt = ''t1'', updatedAt = ''t2'' \<rparr>],
     nextApplicationId := 2 \<rparr>"

section \<open>Theorems\<close>

text \<open>
  Claim C1. The filter of the eligible-students listing holds exactly when
  cgpa >= minCgpa, currentBacklogs <= maxBacklogs and the drive's branch list is empty or
  contains the profile's branch; the filter of the eligible-drives listing holds exactly
  when the same three criteria hold and the drive is ACTIVE (the spec's "every ACTIVE
  drive satisfying the predicate").
\<close>

theorem C1_eligibility_predicate:
  "eligibleStudentsFilter d p =
     (cgpa p \<ge> minCgpa d \<and> currentBacklogs p \<le> maxBacklogs d \<and>
      (allowedBranches d = [] \<or> branch p \<in> set (allowedBranches d)))
   \<and> eligibleDrivesFilter p d =
     ((cgpa p \<ge> minCgpa d \<and> currentBacklogs p \<le> maxBacklogs d \<and>
       (allowedBranches d = [] \<or> branch p \<in> set (allowedBranches d)))
      \<and> drive_status d = ACTIVE)"
  by (auto simp: eligibleStudentsFilter_def eligibleDrivesFilter_def)

lemma eligibility_scenario:
  "eligibleStudentsFilter (closed_drive\<lparr> minCgpa := 7 \<rparr>)
     (weak_student\<lparr> cgpa := 7.5, currentBacklogs := 0, branch := ''CS'' \<rparr>)
   \<and> \<not> eligibleStudentsFilter (closed_drive\<lparr> minCgpa := 7 \<rparr>)
     (weak_student\<lparr> cgpa := 7.5, currentBacklogs := 0, branch := ''IT'' \<rparr>)
   \<and> \<not> eligibleStudentsFilter (closed_drive\<lparr> minCgpa := 7 \<rparr>)
     (weak_student\<lparr> cgpa := 7.5, currentBacklogs := 1, branch := ''CS'' \<rparr>)"
  by (simp add: eligibleStudentsFilter_def closed_drive_def weak_student_def)

subsection \<open>Applying to a drive\<close>

lemma find_None_iff_filter: "(find P xs = None) = (filter P xs = [])"
  by (induction xs) auto

lemma find_Some_D: "find P xs = Some x \<Longrightarrow> x \<in> set xs \<and> P x"
  by (induction xs) (auto split: if_splits)

lemma applyToDrive_NotFound:
  "find (\<lambda>d. drive_id d = did) (drives s) = None \<Longrightarrow> applyToDrive uid did now now2 s = (Inl NotFound, s)"
  by (simp add: applyToDrive_def)

lemma applyToDrive_Conflict:
  "find (\<lambda>d. drive_id d = did) (drives s) \<noteq> None \<Longrightarrow> applicationsOf uid did s \<noteq> [] \<Longrightarrow>
   applyToDrive uid did now now2 s = (Inl Conflict, s)"
  by (auto simp: applyToDrive_def applicationsOf_def find_None_iff_filter[symmetric]
           split: option.splits)

lemma applyToDrive_created:
  "find (\<lambda>d. drive_id d = did) (drives s) \<noteq> None \<Longrightarrow> applicationsOf uid did s = [] \<Longrightarrow>
   applyToDrive uid did now now2 s =
     (Inr \<lparr> app_id = nextApplicationId s, driveId = did, studentId = uid,
            app_status = APPLIED, appliedAt = now, updatedAt = now2 \<rparr>,
      s\<lparr> applications := applications s @
            [\<lparr> app_id = nextApplicationId s, driveId = did, studentId = uid,
               app_status = APPLIED, appliedAt = now, updatedAt = now2 \<rparr>],
         nextApplicationId := nextApplicationId s + 1 \<rparr>)"
  by (auto simp: applyToDrive_def applicationsOf_def Let_def find_None_iff_filter[symmetric]
           split: option.splits)

text \<open>
  Claim C2. \<open>apply\<close> answers NotFound when no drive has the id; otherwise Conflict when the
  student already has an application for the drive; otherwise it appends exactly one
  application, in state APPLIED. After that first success a second call on the resulting
  store answers Conflict, changes nothing, and the pair still has exactly one application.
\<close>

theorem C2_apply:
  "(find (\<lambda>d. drive_id d = did) (drives s) = None \<longrightarrow>
      applyToDrive uid did now now2 s = (Inl NotFound, s))
   \<and> (find (\<lambda>d. drive_id d = did) (drives s) \<noteq> None \<and> applicationsOf uid did s \<noteq> [] \<longrightarrow>
      applyToDrive uid did now now2 s = (Inl Conflict, s))
   \<and> (find (\<lambda>d. drive_id d = did) (drives s) \<noteq> None \<and> applicationsOf uid did s = [] \<longrightarrow>
      (\<exists>a s'. applyToDrive uid did now now2 s = (Inr a, s')
         \<and> app_status a = APPLIED \<and> driveId a = did \<and> studentId a = uid
         \<and> applications s' = applications s @ [a]
         \<and> applicationsOf uid did s' = [a]
         \<and> applyToDrive uid did now' now2' s' = (Inl Conflict, s')
         \<and> length (applicationsOf uid did (snd (applyToDrive uid did now' now2' s'))) = 1))"
proof (intro conjI impI)
  assume "find (\<lambda>d. drive_id d = did) (drives s) = None"
  then show "applyToDrive uid did now now2 s = (Inl NotFound, s)"
    by (rule applyToDrive_NotFound)
next
  assume "find (\<lambda>d. drive_id d = did) (drives s) \<noteq> None \<and> applicationsOf uid did s \<noteq> []"
  then show "applyToDrive uid did now now2 s = (Inl Conflict, s)"
    by (simp add: applyToDrive_Conflict)
next
  assume h: "find (\<lambda>d. drive_id d = did) (drives s) \<noteq> None \<and> applicationsOf uid did s = []"
  define a where "a = \<lparr> app_id = nextApplicationId s, driveId = did, studentId = uid,
            app_status = APPLIED, appliedAt = now, updatedAt = now2 \<rparr>"
  define s' where "s' = s\<lparr> applications := applications s @ [a],
         nextApplicationId := nextApplicationId s + 1 \<rparr>"
  have first: "applyToDrive uid did now now2 s = (Inr a, s')"
    using h by (simp add: applyToDrive_created a_def s'_def)
  have only: "applicationsOf uid did s' = [a]"
    using h by (simp add: applicationsOf_def s'_def a_def)
  have d': "find (\<lambda>d. drive_id d = did) (drives s') \<noteq> None"
    using h by (simp add: s'_def)
  have second: "applyToDrive uid did now' now2' s' = (Inl Conflict, s')"
    using d' only by (simp add: applyToDrive_Conflict)
  show "\<exists>a s'. applyToDrive uid did now now2 s = (Inr a, s')
         \<and> app_status a = APPLIED \<and> driveId a = did \<and> studentId a = uid
         \<and> applications s' = applications s @ [a]
         \<and> applicationsOf uid did s' = [a]
         \<and> applyToDrive uid did now' now2' s' = (Inl Conflict, s')
         \<and> length (applicationsOf uid did (snd (applyToDrive uid did now' now2' s'))) = 1"
    using first only second by (intro exI[of _ a] exI[of _ s']) (simp add: a_def s'_def)
qed

theorem C2_apply_witness:
  "applyToDrive 7 2 ''t1'' ''t1b'' closed_store = (Inl NotFound, closed_store)
   \<and> (\<exists>a s'. applyToDrive 7 1 ''t1'' ''t1b'' closed_store = (Inr a, s')
         \<and> app_status a = APPLIED \<and> driveId a = 1 \<and> studentId a = 7
         \<and> applications s' = applications closed_store @ [a]
         \<and> applicationsOf 7 1 s' = [a]
         \<and> applyToDrive 7 1 ''t2'' ''t2b'' s' = (Inl Conflict, s')
         \<and> length (applicationsOf 7 1 (snd (applyToDrive 7 1 ''t2'' ''t2b'' s'))) = 1)
   \<and> applyToDrive 7 1 ''t2'' ''t2b'' (snd (applyToDrive 7 1 ''t1'' ''t1b'' closed_store))
       = (Inl Conflict, snd (applyToDrive 7 1 ''t1'' ''t1b'' closed_store))"
proof -
  have nf: "find (\<lambda>d. drive_id d = 2) (drives closed_store) = None"
    by (simp add: closed_store_def closed_drive_def empty_store_def)
  have ex: "find (\<lambda>d. drive_id d = 1) (drives closed_store) \<noteq> None"
    by (simp add: closed_store_def closed_drive_def empty_store_def)
  have none: "applicationsOf 7 1 closed_store = []"
    by (simp add: applicationsOf_def closed_store_def empty_store_def)
  let ?s1 = "snd (applyToDrive 7 1 ''t1'' ''t1b'' closed_store)"
  have ex1: "find (\<lambda>d. drive_id d = 1) (drives ?s1) \<noteq> None"
    using ex none by (simp add: applyToDrive_created)
  have some1: "applicationsOf 7 1 ?s1 \<noteq> []"
    using ex none by (simp add: applyToDrive_created applicationsOf_def)
  show ?thesis
    using C2_apply[of 2 closed_store 7 "''t1''" "''t1b''" "''t2''" "''t2b''"]
          C2_apply[of 1 closed_store 7 "''t1''" "''t1b''" "''t2''" "''t2b''"]
          C2_apply[of 1 ?s1 7 "''t2''" "''t2b''" "''t2''" "''t2b''"]
          nf ex none ex1 some1
    by simp
qed

text \<open>
  Claim C10. \<open>apply\<close> reads the drive only to see that it exists, and the applications
  only to see that the pair is new: for any existing drive, whatever its status, deadline
  and criteria, and whatever the student's profile, a student without an application to
  it gets an APPLIED application.
\<close>

theorem C10_apply_unchecked:
  assumes "find (\<lambda>d. drive_id d = did) (drives s) = Some d"
      and "applicationsOf uid did s = []"
  shows "\<exists>a s'. applyToDrive uid did now now2 s = (Inr a, s') \<and> app_status a = APPLIED
           \<and> driveId a = did \<and> studentId a = uid \<and> applicationsOf uid did s' = [a]"
  using assms by (simp add: applyToDrive_created applicationsOf_def)

theorem C10_apply_unchecked_witness:
  "find (\<lambda>d. drive_id d = 1) (drives closed_store) = Some closed_drive
   \<and> drive_status closed_drive = CLOSED
   \<and> applicationDeadline closed_drive = Some ''2000-01-01''
   \<and> find (\<lambda>p. userId p = 7) (studentProfiles closed_store) = Some weak_student
   \<and> \<not> eligibleDrivesFilter weak_student closed_drive
   \<and> applicationsOf 7 1 closed_store = []
   \<and> (\<exists>a s'. applyToDrive 7 1 ''2024-06-01'' ''2024-06-01'' closed_store = (Inr a, s') \<and> app_status a = APPLIED
           \<and> driveId a = 1 \<and> studentId a = 7 \<and> applicationsOf 7 1 s' = [a])"
proof -
  have f: "find (\<lambda>d. drive_id d = 1) (drives closed_store) = Some closed_drive"
    by (simp add: closed_store_def closed_drive_def empty_store_def)
  have n: "applicationsOf 7 1 closed_store = []"
    by (simp add: applicationsOf_def closed_store_def empty_store_def)
  have p: "find (\<lambda>p. userId p = 7) (studentProfiles closed_store) = Some weak_student"
    by (simp add: closed_store_def weak_student_def empty_store_def)
  have e: "\<not> eligibleDrivesFilter weak_student closed_drive"
    by (simp add: eligibleDrivesFilter_def weak_student_def closed_drive_def)
  have c: "drive_status closed_drive = CLOSED \<and> applicationDeadline closed_drive = Some ''2000-01-01''"
    by (simp add: closed_drive_def)
  show ?thesis
    using C10_apply_unchecked[OF f n, of "''2024-06-01''" "''2024-06-01''"] f n p e c by simp
qed

subsection \<open>Mentorship slots\<close>

lemma find_update_first:
  "find P xs = Some x \<Longrightarrow> P (f x) \<Longrightarrow> find P (update_first P f xs) = Some (f x)"
  by (induction xs) (auto split: if_splits)

lemma set_update_first:
  "y \<in> set (update_first P f xs) \<Longrightarrow>
   y \<in> set xs \<or> (\<exists>x \<in> set xs. P x \<and> find P xs = Some x \<and> y = f x)"
  by (induction xs) (auto split: if_splits)

lemma slot_id_bookedSlot: "slot_id (bookedSlot sl) = slot_id sl"
  by (simp add: bookedSlot_def Let_def)

lemma bookedSlot_eq:
  "currentBookings sl < maxStudents sl \<Longrightarrow>
   bookedSlot sl = sl\<lparr> currentBookings := currentBookings sl + 1,
                      slot_status := (if currentBookings sl + 1 = maxStudents sl then FULL
                                      else slot_status sl) \<rparr>"
  by (simp add: bookedSlot_def Let_def)

lemma bookSlot_success:
  assumes "find (\<lambda>x. slot_id x = sid) (mentorshipSlots s) = Some sl"
      and "slot_status sl = AVAILABLE" and "currentBookings sl < maxStudents sl"
      and "find (\<lambda>b. slotId b = sid \<and> booking_studentId b = uid) (mentorshipBookings s) = None"
  shows "bookSlot uid sid now s =
     (Inr \<lparr> booking_id = nextBookingId s, slotId = sid, booking_studentId = uid, bookedAt = now,
            booking_status = CONFIRMED \<rparr>,
      s\<lparr> mentorshipBookings := mentorshipBookings s @
            [\<lparr> booking_id = nextBookingId s, slotId = sid, booking_studentId = uid, bookedAt = now,
               booking_status = CONFIRMED \<rparr>],
         nextBookingId := nextBookingId s + 1,
         mentorshipSlots := update_first (\<lambda>x. slot_id x = sid) bookedSlot (mentorshipSlots s) \<rparr>)"
  using assms by (simp add: bookSlot_def Let_def)

text \<open>Stores reached by the concrete operation sequences.\<close>

lemma store_slot_two:
  "run_slot_ops empty_store [slot_two] =
     empty_store\<lparr> mentorshipSlots :=
        [\<lparr> slot_id = 1, alumniUserId = 1, slotStart = ''2025-01-01T10:00'',
           slotEnd = ''2025-01-01T11:00'', maxStudents = 2, currentBookings = 0,
           slot_description = [], slot_createdAt = ''t0'', slot_status = AVAILABLE \<rparr>],
        nextSlotId := 2 \<rparr>"
  by (simp add: run_slot_ops_def slot_two_def empty_store_def createSlot_def falsy_def
                orEmpty_def Let_def)

lemma store_slot_two_booked:
  "run_slot_ops empty_store [slot_two, BookSlot 7 1 ''t1''] =
     empty_store\<lparr> mentorshipSlots :=
        [\<lparr> slot_id = 1, alumniUserId = 1, slotStart = ''2025-01-01T10:00'',
           slotEnd = ''2025-01-01T11:00'', maxStudents = 2, currentBookings = 1,
           slot_description = [], slot_createdAt = ''t0'', slot_status = AVAILABLE \<rparr>],
        nextSlotId := 2,
        mentorshipBookings :=
        [\<lparr> booking_id = 1, slotId = 1, booking_studentId = 7, bookedAt = ''t1'',
           booking_status = CONFIRMED \<rparr>],
        nextBookingId := 2 \<rparr>"
  by (simp add: run_slot_ops_def slot_two_def empty_store_def createSlot_def falsy_def
                orEmpty_def Let_def bookSlot_def bookedSlot_def)

lemma store_slot_one_booked:
  "run_slot_ops empty_store [slot_one, BookSlot 7 1 ''t1''] =
     empty_store\<lparr> mentorshipSlots :=
        [\<lparr> slot_id = 1, alumniUserId = 1, slotStart = ''2025-01-01T10:00'',
           slotEnd = ''2025-01-01T11:00'', maxStudents = 1, currentBookings = 1,
           slot_description = [], slot_createdAt = ''t0'', slot_status = FULL \<rparr>],
        nextSlotId := 2,
        mentorshipBookings :=
        [\<lparr> booking_id = 1, slotId = 1, booking_studentId = 7, bookedAt = ''t1'',
           booking_status = CONFIRMED \<rparr>],
        nextBookingId := 2 \<rparr>"
  by (simp add: run_slot_ops_def slot_one_def empty_store_def createSlot_def falsy_def
                orEmpty_def Let_def bookSlot_def bookedSlot_def)

text \<open>
  Claim C4. When the slot found for the id is AVAILABLE with currentBookings below
  maxStudents and the student has no booking on it, \<open>book\<close> appends a CONFIRMED booking for
  the pair, raises the slot's currentBookings by exactly one, and leaves the slot FULL
  exactly when the raised count equals maxStudents, AVAILABLE otherwise.
\<close>

theorem C4_book_success:
  assumes "find (\<lambda>x. slot_id x = sid) (mentorshipSlots s) = Some sl"
      and "slot_status sl = AVAILABLE" and "currentBookings sl < maxStudents sl"
      and "find (\<lambda>b. slotId b = sid \<and> booking_studentId b = uid) (mentorshipBookings s) = None"
  shows "\<exists>b s'. bookSlot uid sid now s = (Inr b, s')
           \<and> booking_status b = CONFIRMED \<and> slotId b = sid \<and> booking_studentId b = uid
           \<and> mentorshipBookings s' = mentorshipBookings s @ [b]
           \<and> find (\<lambda>x. slot_id x = sid) (mentorshipSlots s') =
               Some (sl\<lparr> currentBookings := currentBookings sl + 1,
                         slot_status := (if currentBookings sl + 1 = maxStudents sl
                                         then FULL else AVAILABLE) \<rparr>)"
proof -
  have "find (\<lambda>x. slot_id x = sid)
          (update_first (\<lambda>x. slot_id x = sid) bookedSlot (mentorshipSlots s))
          = Some (bookedSlot sl)"
    using assms(1) find_Some_D[OF assms(1)]
    by (intro find_update_first) (simp_all add: slot_id_bookedSlot)
  then show ?thesis
    using assms by (simp add: bookSlot_success bookedSlot_eq)
qed

theorem C4_book_success_witness:
  "find (\<lambda>x. slot_id x = 1) (mentorshipSlots (run_slot_ops empty_store [slot_two, BookSlot 7 1 ''t1'']))
     = Some \<lparr> slot_id = 1, alumniUserId = 1, slotStart = ''2025-01-01T10:00'',
           slotEnd = ''2025-01-01T11:00'', maxStudents = 2, currentBookings = 1,
           slot_description = [], slot_createdAt = ''t0'', slot_status = AVAILABLE \<rparr>
   \<and> find (\<lambda>b. slotId b = 1 \<and> booking_studentId b = 8)
        (mentorshipBookings (run_slot_ops empty_store [slot_two, BookSlot 7 1 ''t1''])) = None
   \<and> (\<exists>b s'. bookSlot 8 1 ''t2'' (run_slot_ops empty_store [slot_two, BookSlot 7 1 ''t1'']) = (Inr b, s')
           \<and> booking_status b = CONFIRMED \<and> slotId b = 1 \<and> booking_studentId b = 8
           \<and> find (\<lambda>x. slot_id x = 1) (mentorshipSlots s') =
               Some \<lparr> slot_id = 1, alumniUserId = 1, slotStart = ''2025-01-01T10:00'',
                  slotEnd = ''2025-01-01T11:00'', maxStudents = 2, currentBookings = 2,
                  slot_description = [], slot_createdAt = ''t0'', slot_status = FULL \<rparr>)"
proof -
  let ?s = "run_slot_ops empty_store [slot_two, BookSlot 7 1 ''t1'']"
  let ?sl = "\<lparr> slot_id = 1, alumniUserId = 1, slotStart = ''2025-01-01T10:00'',
           slotEnd = ''2025-01-01T11:00'', maxStudents = 2, currentBookings = 1,
           slot_description = [], slot_createdAt = ''t0'', slot_status = AVAILABLE \<rparr>"
  have f: "find (\<lambda>x. slot_id x = 1) (mentorshipSlots ?s) = Some ?sl"
    by (simp only: store_slot_two_booked, simp add: empty_store_def)
  have a: "slot_status ?sl = AVAILABLE" and c: "currentBookings ?sl < maxStudents ?sl"
    by simp_all
  have n: "find (\<lambda>b. slotId b = 1 \<and> booking_studentId b = 8) (mentorshipBookings ?s) = None"
    by (simp only: store_slot_two_booked, simp add: empty_store_def)
  show ?thesis
    using C4_book_success[OF f a c n, of "''t2''"] f n by auto
qed

text \<open>
  Claim C6 (as amended). The availability check comes before the duplicate check: for a
  student who already holds a booking on the slot, \<open>book\<close> answers Conflict when the slot is
  AVAILABLE with currentBookings below maxStudents, and Validation ("no longer available")
  when the slot is FULL or at capacity. The store is unchanged in both cases.
\<close>

theorem C6_book_existing:
  assumes "find (\<lambda>x. slot_id x = sid) (mentorshipSlots s) = Some sl"
      and "find (\<lambda>b. slotId b = sid \<and> booking_studentId b = uid) (mentorshipBookings s) = Some b"
  shows "bookSlot uid sid now s =
           (if slot_status sl = AVAILABLE \<and> currentBookings sl < maxStudents sl
            then (Inl Conflict, s) else (Inl Validation, s))"
  using assms by (auto simp: bookSlot_def)

theorem C6_book_existing_witness:
  "find (\<lambda>b. slotId b = 1 \<and> booking_studentId b = 7)
        (mentorshipBookings (run_slot_ops empty_store [slot_two, BookSlot 7 1 ''t1'']))
     = Some \<lparr> booking_id = 1, slotId = 1, booking_studentId = 7, bookedAt = ''t1'',
             booking_status = CONFIRMED \<rparr>
   \<and> bookSlot 7 1 ''t2'' (run_slot_ops empty_store [slot_two, BookSlot 7 1 ''t1''])
       = (Inl Conflict, run_slot_ops empty_store [slot_two, BookSlot 7 1 ''t1''])"
proof -
  let ?s = "run_slot_ops empty_store [slot_two, BookSlot 7 1 ''t1'']"
  let ?sl = "\<lparr> slot_id = 1, alumniUserId = 1, slotStart = ''2025-01-01T10:00'',
           slotEnd = ''2025-01-01T11:00'', maxStudents = 2, currentBookings = 1,
           slot_description = [], slot_createdAt = ''t0'', slot_status = AVAILABLE \<rparr>"
  have f: "find (\<lambda>x. slot_id x = 1) (mentorshipSlots ?s) = Some ?sl"
    by (simp only: store_slot_two_booked, simp add: empty_store_def)
  have e: "find (\<lambda>b. slotId b = 1 \<and> booking_studentId b = 7) (mentorshipBookings ?s)
     = Some \<lparr> booking_id = 1, slotId = 1, booking_studentId = 7, bookedAt = ''t1'',
             booking_status = CONFIRMED \<rparr>"
    by (simp only: store_slot_two_booked, simp add: empty_store_def)
  show ?thesis
    using C6_book_existing[OF f e, of "''t2''"] e by simp
qed

text \<open>
  Counterexample to C6 as stated: a slot of capacity one, booked by student 7 and
  therefore FULL; the same student's second request is answered with Validation, not
  Conflict.
\<close>

theorem C6_full_slot_counterexample:
  "find (\<lambda>b. slotId b = 1 \<and> booking_studentId b = 7)
        (mentorshipBookings (run_slot_ops empty_store [slot_one, BookSlot 7 1 ''t1'']))
     = Some \<lparr> booking_id = 1, slotId = 1, booking_studentId = 7, bookedAt = ''t1'',
             booking_status = CONFIRMED \<rparr>
   \<and> fst (bookSlot 7 1 ''t2'' (run_slot_ops empty_store [slot_one, BookSlot 7 1 ''t1'']))
       = Inl Validation
   \<and> fst (bookSlot 7 1 ''t2'' (run_slot_ops empty_store [slot_one, BookSlot 7 1 ''t1'']))
       \<noteq> Inl Conflict"
  by (simp only: store_slot_one_booked, simp add: empty_store_def bookSlot_def)

subsection \<open>The slot invariant\<close>

lemma bookedSlot_kept:
  "slot_invariant_kept sl \<Longrightarrow> slot_status sl = AVAILABLE \<Longrightarrow>
   currentBookings sl < maxStudents sl \<Longrightarrow> slot_invariant_kept (bookedSlot sl)"
  by (auto simp: slot_invariant_kept_def bookedSlot_def Let_def)

lemma createSlot_kept:
  assumes "\<forall>sl \<in> set (mentorshipSlots s). slot_invariant_kept sl"
  shows "\<forall>sl \<in> set (mentorshipSlots (snd (createSlot uid st en m d now s))). slot_invariant_kept sl"
  using assms
  by (auto simp: createSlot_def Let_def slot_invariant_kept_def split: option.splits)

lemma bookSlot_kept:
  assumes "\<forall>sl \<in> set (mentorshipSlots s). slot_invariant_kept sl"
  shows "\<forall>sl \<in> set (mentorshipSlots (snd (bookSlot uid sid now s))). slot_invariant_kept sl"
proof
  fix y assume y: "y \<in> set (mentorshipSlots (snd (bookSlot uid sid now s)))"
  show "slot_invariant_kept y"
  proof (cases "find (\<lambda>x. slot_id x = sid) (mentorshipSlots s)")
    case None
    then show ?thesis using y assms by (simp add: bookSlot_def)
  next
    case (Some sl)
    show ?thesis
    proof (cases "slot_status sl = AVAILABLE \<and> currentBookings sl < maxStudents sl \<and>
        find (\<lambda>b. slotId b = sid \<and> booking_studentId b = uid) (mentorshipBookings s) = None")
      case True
      then have "y \<in> set (update_first (\<lambda>x. slot_id x = sid) bookedSlot (mentorshipSlots s))"
        using y Some by (simp add: bookSlot_success)
      then have "y \<in> set (mentorshipSlots s) \<or> y = bookedSlot sl"
        using Some by (auto dest: set_update_first)
      moreover have "slot_invariant_kept (bookedSlot sl)"
        using True assms find_Some_D[OF Some] by (intro bookedSlot_kept) auto
      ultimately show ?thesis using assms by auto
    next
      case False
      then have "snd (bookSlot uid sid now s) = s"
        using Some by (auto simp: bookSlot_def split: option.splits)
      then show ?thesis using y assms by simp
    qed
  qed
qed

lemma run_slot_ops_kept:
  "\<forall>sl \<in> set (mentorshipSlots s). slot_invariant_kept sl \<Longrightarrow>
   \<forall>sl \<in> set (mentorshipSlots (run_slot_ops s ops)). slot_invariant_kept sl"
  unfolding run_slot_ops_def
proof (induction ops arbitrary: s)
  case Nil
  then show ?case by simp
next
  case (Cons op ops)
  have "\<forall>sl \<in> set (mentorshipSlots (slot_step s op)). slot_invariant_kept sl"
    using Cons.prems by (cases op) (simp_all add: createSlot_kept bookSlot_kept)
  then show ?case using Cons.IH by simp
qed

text \<open>
  \<open>createSlot\<close> gives a capacity of at least one unless the submitted \<open>maxStudents\<close> parses to
  a negative integer, which it stores as it is.
\<close>

lemma createSlot_maxStudents:
  "createSlot uid st en m d now s = (Inr sl, s') \<Longrightarrow>
   maxStudents sl = (case m of None \<Rightarrow> 1 | Some k \<Rightarrow> if k = 0 then 1 else k)"
  by (auto simp: createSlot_def Let_def split: if_splits)

text \<open>
  Claim C3 (as amended). Starting from a store without slots, after any sequence of
  \<open>createSlot\<close> and \<open>book\<close> operations every slot has currentBookings >= 0 and a non-zero
  maxStudents, is FULL if and only if currentBookings equals maxStudents and AVAILABLE
  otherwise, and has currentBookings <= maxStudents whenever its maxStudents is at least
  one. Nothing orders slotStart and slotEnd.
\<close>

theorem C3_slot_invariant_kept:
  assumes "mentorshipSlots s0 = []" and "sl \<in> set (mentorshipSlots (run_slot_ops s0 ops))"
  shows "slot_invariant_kept sl"
  using run_slot_ops_kept[of s0 ops] assms by simp

theorem C3_slot_invariant_kept_witness:
  "mentorshipSlots empty_store = []
   \<and> \<lparr> slot_id = 1, alumniUserId = 1, slotStart = ''2025-01-01T10:00'',
        slotEnd = ''2025-01-01T11:00'', maxStudents = 1, currentBookings = 1,
        slot_description = [], slot_createdAt = ''t0'', slot_status = FULL \<rparr>
       \<in> set (mentorshipSlots (run_slot_ops empty_store [slot_one, BookSlot 7 1 ''t1'']))
   \<and> slot_invariant_kept
       \<lparr> slot_id = 1, alumniUserId = 1, slotStart = ''2025-01-01T10:00'',
        slotEnd = ''2025-01-01T11:00'', maxStudents = 1, currentBookings = 1,
        slot_description = [], slot_createdAt = ''t0'', slot_status = FULL \<rparr>"
proof -
  let ?sl = "\<lparr> slot_id = 1, alumniUserId = 1, slotStart = ''2025-01-01T10:00'',
        slotEnd = ''2025-01-01T11:00'', maxStudents = 1, currentBookings = 1,
        slot_description = [], slot_createdAt = ''t0'', slot_status = FULL \<rparr>"
  have e: "mentorshipSlots empty_store = []"
    by (simp add: empty_store_def)
  have m: "?sl \<in> set (mentorshipSlots (run_slot_ops empty_store [slot_one, BookSlot 7 1 ''t1'']))"
    by (simp only: store_slot_one_booked, simp add: empty_store_def)
  show ?thesis
    using C3_slot_invariant_kept[OF e m] e m by simp
qed

text \<open>
  Counterexamples to C3 as stated: \<open>createSlot\<close> accepts an end that lies before the start,
  and it stores a negative capacity, which the zero bookings of the new slot already
  exceed.
\<close>

theorem C3_slot_invariant_counterexample:
  "\<not> slotEnd (last (mentorshipSlots (run_slot_ops empty_store [slot_backwards])))
       > slotStart (last (mentorshipSlots (run_slot_ops empty_store [slot_backwards])))
   \<and> \<not> slot_invariant (last (mentorshipSlots (run_slot_ops empty_store [slot_backwards])))
   \<and> maxStudents (last (mentorshipSlots (run_slot_ops empty_store [slot_negative]))) = - 5
   \<and> \<not> currentBookings (last (mentorshipSlots (run_slot_ops empty_store [slot_negative])))
         \<le> maxStudents (last (mentorshipSlots (run_slot_ops empty_store [slot_negative])))
   \<and> \<not> slot_invariant (last (mentorshipSlots (run_slot_ops empty_store [slot_negative])))"
  by (simp add: run_slot_ops_def slot_backwards_def slot_negative_def empty_store_def
                createSlot_def falsy_def orEmpty_def slot_invariant_def Let_def)

subsection \<open>Writing the profile\<close>

text \<open>
  Claim C5, evaluated on the code: the handler reads the identifier \<open>experience\<close>, which
  line 288 does not bind, so every profile write ends in the \<open>catch\<close> block with an internal
  error and stores nothing.
\<close>

theorem C5_updateProfile_fails: "updateProfile uid b s = (Inl InternalError, s)"
  by (simp add: updateProfile_def buildProfile_def ident_def bind_exn_def updateProfile_scope_def)

subsection \<open>Analytics\<close>

lemma hasSelected_filter:
  "hasSelected apps p = (length (filter (\<lambda>a. studentId a = userId p \<and> app_status a = SELECTED) apps) > 0)"
  by (auto simp: hasSelected_def list_ex_iff filter_empty_conv)

lemma length_filter_conj_le: "length (filter (\<lambda>x. P x \<and> Q x) xs) \<le> length (filter P xs)"
  by (induction xs) auto

lemma filter_conj_empty: "filter P xs = [] \<Longrightarrow> filter (\<lambda>x. P x \<and> Q x) xs = []"
  by (auto simp: filter_empty_conv)

lemma branchStep_other:
  "branchOf p \<noteq> b \<Longrightarrow> branchStep apps m p b = m b"
  by (simp add: branchStep_def Let_def)

lemma branchStep_proto:
  "branchOf p \<in> set objectPrototypeKeys \<Longrightarrow> branchStep apps m p = m"
  by (simp add: branchStep_def Let_def)

lemma branchStep_same:
  "branchOf p = b \<Longrightarrow> b \<notin> set objectPrototypeKeys \<Longrightarrow>
   branchStep apps m p b =
     Some (fst (case m b of None \<Rightarrow> (0, 0) | Some tp \<Rightarrow> tp) + 1,
           snd (case m b of None \<Rightarrow> (0, 0) | Some tp \<Rightarrow> tp) + (if hasSelected apps p then 1 else 0))"
  by (simp add: branchStep_def Let_def hasSelected_filter)

lemma foldl_branchStep_proto:
  "b \<in> set objectPrototypeKeys \<Longrightarrow> foldl (branchStep apps) m ps b = m b"
proof (induction ps arbitrary: m)
  case Nil
  then show ?case by simp
next
  case (Cons p ps)
  have "branchStep apps m p b = m b"
    using Cons.prems by (cases "branchOf p = b") (simp_all add: branchStep_proto branchStep_other)
  then show ?case using Cons by simp
qed

lemma foldl_branchStep:
  assumes "b \<notin> set objectPrototypeKeys"
  shows "foldl (branchStep apps) m ps b =
     (if filter (\<lambda>p. branchOf p = b) ps = [] then m b
      else Some (fst (case m b of None \<Rightarrow> (0, 0) | Some tp \<Rightarrow> tp)
                   + length (filter (\<lambda>p. branchOf p = b) ps),
                 snd (case m b of None \<Rightarrow> (0, 0) | Some tp \<Rightarrow> tp)
                   + length (filter (\<lambda>p. branchOf p = b \<and> hasSelected apps p) ps)))"
proof (induction ps arbitrary: m)
  case Nil
  then show ?case by simp
next
  case (Cons p ps)
  show ?case
  proof (cases "branchOf p = b")
    case True
    then show ?thesis
      using assms by (simp add: Cons.IH branchStep_same filter_conj_empty)
  next
    case False
    then show ?thesis
      by (simp add: Cons.IH branchStep_other)
  qed
qed

text \<open>
  Claim C9. Every bucket of \<open>branchStats\<close> has placed <= total: total is the number of
  profiles of the branch, and placed is the number of those profiles whose student has at
  least one SELECTED application, however many SELECTED applications the student has.
\<close>

theorem C9_placed_le_total:
  assumes "branchStats s b = Some (t, p)"
  shows "p \<le> t
    \<and> t = length (filter (\<lambda>pr. branchOf pr = b) (studentProfiles s))
    \<and> p = length (filter (\<lambda>pr. branchOf pr = b \<and> hasSelected (applications s) pr) (studentProfiles s))"
proof -
  have nb: "b \<notin> set objectPrototypeKeys"
    using assms foldl_branchStep_proto[of b "applications s" Map.empty "studentProfiles s"]
    by (auto simp: branchStats_def)
  have "t = length (filter (\<lambda>pr. branchOf pr = b) (studentProfiles s))
      \<and> p = length (filter (\<lambda>pr. branchOf pr = b \<and> hasSelected (applications s) pr) (studentProfiles s))"
    using assms foldl_branchStep[OF nb, of "applications s" Map.empty "studentProfiles s"]
    by (auto simp: branchStats_def split: if_splits)
  moreover have "length (filter (\<lambda>pr. branchOf pr = b \<and> hasSelected (applications s) pr) (studentProfiles s))
      \<le> length (filter (\<lambda>pr. branchOf pr = b) (studentProfiles s))"
    by (rule length_filter_conj_le)
  ultimately show ?thesis by simp
qed


theorem C9_placed_le_total_witness:
  "branchStats placed_twice_store ''CS'' = Some (2, 2)
   \<and> length (filter (\<lambda>a. app_status a = SELECTED) (applications placed_twice_store)) = 3
   \<and> (2::nat) \<le> 2
   \<and> 2 = length (filter (\<lambda>pr. branchOf pr = ''CS'') (studentProfiles placed_twice_store))
   \<and> 2 = length (filter (\<lambda>pr. branchOf pr = ''CS'' \<and> hasSelected (applications placed_twice_store) pr)
                  (studentProfiles placed_twice_store))"
proof -
  have b: "branchStats placed_twice_store ''CS'' = Some (2, 2)"
    by (simp add: branchStats_def branchStep_def branchOf_def objectPrototypeKeys_def
          placed_twice_store_def empty_store_def Let_def)
  have n: "length (filter (\<lambda>a. app_status a = SELECTED) (applications placed_twice_store)) = 3"
    by (simp add: placed_twice_store_def empty_store_def)
  show ?thesis using C9_placed_le_total[OF b] b n by simp
qed

lemma toLowerCase_Python: "toLowerCase ''Python'' = ''python'' \<and> toLowerCase ''Java'' = ''java''
   \<and> toLowerCase ''JS'' = ''js'' \<and> toLowerCase ''js'' = ''js''"
  by code_simp

lemma plain_keys:
  "\<not> isArrayIndex ''python'' \<and> \<not> isArrayIndex ''java'' \<and> \<not> isArrayIndex ''js''"
  by code_simp

text \<open>
  What does hold of \<open>skillGap\<close>, where no placed student lists a skill that lower-cases to
  \<open>constructor\<close>: at most five recommendations, by descending frequency, none for a skill
  that the requester's profile lists in any capitalisation.
\<close>

lemma sorted_take_map: "sorted (map k xs) \<Longrightarrow> sorted (map k (take n xs))"
  by (simp add: take_map[symmetric] sorted_wrt_take)

lemma skillGap_properties:
  assumes "find (\<lambda>p. userId p = uid) (studentProfiles s) = Some profile"
      and "\<forall>student \<in> set (placedStudents s). ''constructor'' \<notin> set (map toLowerCase (skills student))"
  shows "length (skillGap uid s) \<le> 5"
    and "sorted (map (\<lambda>r. - int (rec_frequency r)) (skillGap uid s))"
    and "r \<in> set (skillGap uid s) \<Longrightarrow> rec_skill r \<notin> set (map toLowerCase (skills profile))"
proof -
  let ?kept = "filter (\<lambda>(skill, count). skill \<notin> set (map toLowerCase (skills profile)))
                 (objectEntries (skillFrequency (placedStudents s)))"
  let ?top = "take 5 (sort_key (\<lambda>(skill, count). - int count) ?kept)"
  let ?mk = "\<lambda>(skill, count). \<lparr> rec_skill = skill, rec_frequency = count,
                 rec_percentage = real count / real (length (placedStudents s)) * 100 \<rparr>"
  have sg: "skillGap uid s = map ?mk ?top"
    using assms(1) by (simp add: skillGap_def Let_def)
  show "length (skillGap uid s) \<le> 5" by (simp add: sg)
  have "sorted (map (\<lambda>(skill, count). - int count) ?top)"
    by (intro sorted_take_map) simp
  moreover have "map (\<lambda>r. - int (rec_frequency r)) (map ?mk ?top) = map (\<lambda>(skill, count). - int count) ?top"
    by (simp add: comp_def case_prod_unfold)
  ultimately show "sorted (map (\<lambda>r. - int (rec_frequency r)) (skillGap uid s))"
    by (simp only: sg)
  show "rec_skill r \<notin> set (map toLowerCase (skills profile))" if "r \<in> set (skillGap uid s)"
  proof -
    from that obtain e where e: "e \<in> set ?top" and r: "r = ?mk e" by (auto simp: sg)
    then have "e \<in> set ?kept" by (auto dest: in_set_takeD)
    then show ?thesis using r by (auto simp: case_prod_unfold)
  qed
qed

text \<open>
  Claim C7, evaluated on the code. Student 1 has two SELECTED applications and student 2
  has one: \<open>placedStudents\<close> has three entries for two placed students, the skill of
  student 1 is counted twice, and the quotient is 2/3 where one placed student of two
  (50 percent) has the skill. With a skill listed twice on one placed profile the
  quotient is 200 percent.
\<close>

theorem C7_skillGap_counts_applications:
  "skillGap 3 placed_twice_store =
     [\<lparr> rec_skill = ''python'', rec_frequency = 2, rec_percentage = 200 / 3 \<rparr>,
      \<lparr> rec_skill = ''java'', rec_frequency = 1, rec_percentage = 100 / 3 \<rparr>]
   \<and> length (placedStudents placed_twice_store) = 3
   \<and> length (filter (hasSelected (applications placed_twice_store))
               (studentProfiles placed_twice_store)) = 2
   \<and> skillGap 3 repeated_skill_store =
     [\<lparr> rec_skill = ''js'', rec_frequency = 2, rec_percentage = 200 \<rparr>]"
  by (simp add: skillGap_def placedStudents_def skillFrequency_def countSkill_def objectEntries_def
        plain_keys placed_twice_store_def
        repeated_skill_store_def empty_store_def List.map_filter_def hasSelected_def
        toLowerCase_Python Let_def)

subsection \<open>PlacementBot\<close>

lemma foldl_count:
  "foldl (\<lambda>score x. if P x then score + k else score) a xs = a + k * length (filter P xs)"
  by (induction xs arbitrary: a) auto

lemma faqScore_closed:
  "faqScore query f =
     2 * length (filter (\<lambda>tag. includesStr query (toLowerCase tag)) (tags f))
     + length (filter (\<lambda>word. includesStr (toLowerCase (question f)) word) (splitWhitespace query))"
  by (simp add: faqScore_def Let_def foldl_count[where k=2] foldl_count[where k=1, simplified])

lemma is_space_toLowerChar: "is_space (toLowerChar c) = is_space c"
  by (auto simp: is_space_def toLowerChar_def Let_def)

lemma tokensFrom_splitFrom:
  "(inSep \<longrightarrow> cur = []) \<Longrightarrow> filter (\<lambda>w. w \<noteq> []) (splitFrom inSep cur str) = tokensFrom cur str"
  by (induction inSep cur str rule: splitFrom.induct) auto

lemma splitFrom_no_empty:
  "(str = [] \<longrightarrow> cur \<noteq> []) \<Longrightarrow> (str \<noteq> [] \<longrightarrow> \<not> is_space (last str)) \<Longrightarrow>
   (cur = [] \<and> \<not> inSep \<longrightarrow> \<not> is_space (hd str)) \<Longrightarrow> [] \<notin> set (splitFrom inSep cur str)"
proof (induction inSep cur str rule: splitFrom.induct)
  case (1 inSep cur)
  then show ?case by simp
next
  case (2 inSep cur c cs)
  show ?case
  proof (cases "is_space c")
    case True
    then have cs: "cs \<noteq> []" using "2.prems"(2) by auto
    then have l: "\<not> is_space (last cs)" using "2.prems"(2) by simp
    show ?thesis
    proof (cases inSep)
      case True
      then show ?thesis using \<open>is_space c\<close> cs l "2.IH"(1) by simp
    next
      case False
      then have "cur \<noteq> []" using \<open>is_space c\<close> "2.prems"(3) by auto
      then show ?thesis using \<open>is_space c\<close> False cs l "2.IH"(2) by simp
    qed
  next
    case False
    have "cs \<noteq> [] \<longrightarrow> \<not> is_space (last cs)" using "2.prems"(2) by auto
    then show ?thesis using False "2.IH"(3) by simp
  qed
qed

lemma splitWhitespace_tokens:
  assumes "str \<noteq> []" "\<not> is_space (hd str)" "\<not> is_space (last str)"
  shows "splitWhitespace str = tokens_spec str"
proof -
  have "[] \<notin> set (splitFrom False [] str)"
    using assms by (intro splitFrom_no_empty) auto
  then have "filter (\<lambda>w. w \<noteq> []) (splitFrom False [] str) = splitFrom False [] str"
    by (auto simp: filter_id_conv)
  then show ?thesis
    using tokensFrom_splitFrom[of False "[]" str] by (simp add: splitWhitespace_def tokens_spec_def)
qed

lemma toLowerCase_trimmed:
  assumes "q \<noteq> []" "\<not> is_space (hd q)" "\<not> is_space (last q)"
  shows "toLowerCase q \<noteq> [] \<and> \<not> is_space (hd (toLowerCase q)) \<and> \<not> is_space (last (toLowerCase q))"
  using assms by (simp add: toLowerCase_def hd_map last_map is_space_toLowerChar)

lemma faqScore_spec_eq:
  assumes "\<forall>tag \<in> set (tags f). toLowerCase tag = tag"
      and "splitWhitespace query = tokens_spec query"
  shows "faqScore query f = faqScore_spec query f"
  using assms by (simp add: faqScore_closed faqScore_spec_def cong: filter_cong)

lemma insort_key_map:
  "insort_key k (h x) (map h ys) = map h (insort_key (\<lambda>y. k (h y)) x ys)"
  by (induction ys) auto

lemma sort_key_map: "sort_key k (map h xs) = map h (sort_key (\<lambda>y. k (h y)) xs)"
  by (induction xs) (simp_all add: insort_key_map)

lemma hd_insort_key:
  "hd (insort_key f x ys) = (if ys = [] \<or> f x \<le> f (hd ys) then x else hd ys)"
  by (cases ys) auto

lemma sort_key_Nil_iff: "(sort_key f xs = []) = (xs = [])"
  by (metis length_0_conv length_sort)

lemma find_min_sort_key:
  fixes f :: "'a \<Rightarrow> int"
  shows "xs \<noteq> [] \<Longrightarrow> find (\<lambda>y. f y = Min (f ` set xs)) xs = Some (hd (sort_key f xs))"
proof (induction xs)
  case Nil
  then show ?case by simp
next
  case (Cons x xs)
  show ?case
  proof (cases "xs = []")
    case True
    then show ?thesis by simp
  next
    case False
    let ?h = "hd (sort_key f xs)"
    let ?m = "Min (f ` set xs)"
    have ih: "find (\<lambda>y. f y = ?m) xs = Some ?h" using Cons.IH False by simp
    then have fh: "f ?h = ?m" by (auto dest: find_Some_D)
    have mn: "Min (f ` set (x # xs)) = min (f x) ?m" using False by simp
    have ne: "sort_key f xs \<noteq> []" using False by (simp add: sort_key_Nil_iff)
    have hdi: "hd (sort_key f (x # xs)) = (if f x \<le> ?m then x else ?h)"
      using fh ne by (simp add: hd_insort_key)
    have fnd: "find (\<lambda>y. f y = min (f x) ?m) (x # xs) = Some (if f x \<le> ?m then x else ?h)"
      using ih by (auto simp: min_def)
    show ?thesis
      by (subst mn, subst hdi, rule fnd)
  qed
qed

lemma find_filter_conj: "find P (filter Q xs) = find (\<lambda>x. Q x \<and> P x) xs"
  by (induction xs) auto

lemma rankedBy_Nil_iff: "(rankedBy sc xs = []) = list_all (\<lambda>x. sc x = 0) xs"
  by (auto simp: rankedBy_def sort_key_Nil_iff filter_empty_conv list_all_iff)

lemma rankedBy_hd:
  assumes "rankedBy sc xs \<noteq> []"
  shows "find (\<lambda>x. \<forall>y \<in> set xs. sc y \<le> sc x) xs = Some (hd (rankedBy sc xs))"
proof -
  let ?k = "\<lambda>x. - int (sc x)"
  let ?pos = "filter (\<lambda>x. 0 < sc x) xs"
  have ne: "?pos \<noteq> []" using assms by (simp add: rankedBy_def sort_key_Nil_iff)
  then obtain p where p: "p \<in> set xs" "0 < sc p"
    by (auto simp: filter_empty_conv)
  have "find (\<lambda>y. ?k y = Min (?k ` set ?pos)) ?pos = Some (hd (sort_key ?k ?pos))"
    using ne by (rule find_min_sort_key)
  then have 1: "find (\<lambda>y. 0 < sc y \<and> ?k y = Min (?k ` set ?pos)) xs = Some (hd (rankedBy sc xs))"
    by (simp add: find_filter_conj rankedBy_def)
  have 2: "(0 < sc y \<and> ?k y = Min (?k ` set ?pos)) = (\<forall>g \<in> set xs. sc g \<le> sc y)"
    if y: "y \<in> set xs" for y
  proof
    assume a: "0 < sc y \<and> ?k y = Min (?k ` set ?pos)"
    show "\<forall>g \<in> set xs. sc g \<le> sc y"
    proof
      fix g assume g: "g \<in> set xs"
      show "sc g \<le> sc y"
      proof (cases "0 < sc g")
        case True
        then have "?k g \<in> ?k ` set ?pos" using g by auto
        then have "Min (?k ` set ?pos) \<le> ?k g" by (intro Min_le) auto
        then show ?thesis using a by simp
      next
        case False
        then show ?thesis by simp
      qed
    qed
  next
    assume a: "\<forall>g \<in> set xs. sc g \<le> sc y"
    then have pos: "0 < sc y" using p by (meson less_le_trans)
    then have yin: "?k y \<in> ?k ` set ?pos" using y by auto
    have "Min (?k ` set ?pos) = ?k y"
    proof (rule Min_eqI)
      show "finite (?k ` set ?pos)" by simp
      show "?k y \<in> ?k ` set ?pos" by (rule yin)
      fix z assume "z \<in> ?k ` set ?pos"
      then show "?k y \<le> z" using a by auto
    qed
    then show "0 < sc y \<and> ?k y = Min (?k ` set ?pos)" using pos by simp
  qed
  have "find (\<lambda>x. \<forall>g \<in> set xs. sc g \<le> sc x) xs
          = find (\<lambda>y. 0 < sc y \<and> ?k y = Min (?k ` set ?pos)) xs"
  proof (rule find_cong[OF refl])
    fix x assume "x \<in> set xs"
    then show "(\<forall>g \<in> set xs. sc g \<le> sc x) = (0 < sc x \<and> ?k x = Min (?k ` set ?pos))"
      by (rule 2[symmetric])
  qed
  then show ?thesis using 1 by simp
qed

lemma rankedBy_sorted: "sorted (map (\<lambda>x. - int (sc x)) (rankedBy sc xs))"
  by (simp add: rankedBy_def)

lemma filter_filter_pos:
  "filter (\<lambda>f. g f = k) (filter (\<lambda>f. 0 < g f) xs) = filter (\<lambda>f. g f = k \<and> 0 < k) xs"
  for g :: "'a \<Rightarrow> nat"
  by (induction xs) auto

lemma rankedBy_stable:
  "filter (\<lambda>x. sc x = k) (rankedBy sc xs) = filter (\<lambda>x. sc x = k \<and> 0 < k) xs"
proof -
  have "filter (\<lambda>x. - int (sc x) = - int k) (rankedBy sc xs)
      = filter (\<lambda>x. - int (sc x) = - int k) (filter (\<lambda>x. 0 < sc x) xs)"
    unfolding rankedBy_def by (rule sort_key_stable)
  then have "filter (\<lambda>x. sc x = k) (rankedBy sc xs)
      = filter (\<lambda>x. sc x = k) (filter (\<lambda>x. 0 < sc x) xs)"
    by simp
  then show ?thesis by (simp only: filter_filter_pos)
qed

lemma matchedFAQs_ranked:
  assumes "\<forall>f \<in> set corpus. faqScore query f = sc f"
  shows "matchedFAQs corpus query = map (\<lambda>f. (f, sc f)) (rankedBy sc corpus)"
proof -
  have e: "map (\<lambda>f. (f, faqScore query f)) corpus = map (\<lambda>f. (f, sc f)) corpus"
    using assms by simp
  have "matchedFAQs corpus query =
          sort_key (\<lambda>(f, score). - int score)
            (filter (\<lambda>(f, score). score > 0) (map (\<lambda>f. (f, sc f)) corpus))"
    by (simp only: matchedFAQs_def e)
  also have "\<dots> = map (\<lambda>f. (f, sc f)) (rankedBy sc corpus)"
    by (simp add: rankedBy_def filter_map comp_def sort_key_map)
  finally show ?thesis .
qed

text \<open>
  The answer of the bot in terms of any function that agrees with the computed score on
  the corpus.
\<close>

lemma botAsk_ranked:
  assumes "q \<noteq> []" and "\<forall>f \<in> set corpus. faqScore (toLowerCase q) f = sc f"
  shows "(list_all (\<lambda>f. sc f = 0) corpus \<longrightarrow>
            botAsk corpus q = Inr (fallbackAnswer, map FullFAQ (take 3 corpus)))
     \<and> (\<not> list_all (\<lambda>f. sc f = 0) corpus \<longrightarrow>
          (\<exists>best rest. rankedBy sc corpus = best # rest
             \<and> find (\<lambda>f. \<forall>g \<in> set corpus. sc g \<le> sc f) corpus = Some best
             \<and> botAsk corpus q =
                 Inr (answer best, map (\<lambda>f. QuestionAnswer (question f) (answer f)) (take 3 rest))))"
proof (intro conjI impI)
  assume "list_all (\<lambda>f. sc f = 0) corpus"
  then have "rankedBy sc corpus = []" by (simp add: rankedBy_Nil_iff)
  then show "botAsk corpus q = Inr (fallbackAnswer, map FullFAQ (take 3 corpus))"
    using assms by (simp add: botAsk_def matchedFAQs_ranked[OF assms(2)])
next
  assume "\<not> list_all (\<lambda>f. sc f = 0) corpus"
  then have ne: "rankedBy sc corpus \<noteq> []" by (simp add: rankedBy_Nil_iff)
  then obtain best rest where br: "rankedBy sc corpus = best # rest"
    by (cases "rankedBy sc corpus") auto
  have "find (\<lambda>f. \<forall>g \<in> set corpus. sc g \<le> sc f) corpus = Some best"
    using rankedBy_hd[OF ne] br by simp
  moreover have "botAsk corpus q =
      Inr (answer best, map (\<lambda>f. QuestionAnswer (question f) (answer f)) (take 3 rest))"
    using assms(1) br by (simp add: botAsk_def matchedFAQs_ranked[OF assms(2)] take_map comp_def)
  ultimately show "\<exists>best rest. rankedBy sc corpus = best # rest
             \<and> find (\<lambda>f. \<forall>g \<in> set corpus. sc g \<le> sc f) corpus = Some best
             \<and> botAsk corpus q =
                 Inr (answer best, map (\<lambda>f. QuestionAnswer (question f) (answer f)) (take 3 rest))"
    using br by blast
qed

lemma tags_lower: "list_all (\<lambda>f. list_all (\<lambda>t. toLowerCase t = t) (tags f)) faqs"
  by code_simp

lemma faqScore_spec_faqs:
  assumes "q \<noteq> []" "\<not> is_space (hd q)" "\<not> is_space (last q)"
  shows "\<forall>f \<in> set faqs. faqScore (toLowerCase q) f = faqScore_spec (toLowerCase q) f"
proof
  fix f assume f: "f \<in> set faqs"
  have t: "\<forall>tag \<in> set (tags f). toLowerCase tag = tag"
    using tags_lower f by (auto simp: list_all_iff)
  have "splitWhitespace (toLowerCase q) = tokens_spec (toLowerCase q)"
    using toLowerCase_trimmed[OF assms] by (intro splitWhitespace_tokens) simp_all
  then show "faqScore (toLowerCase q) f = faqScore_spec (toLowerCase q) f"
    using t by (rule faqScore_spec_eq[rotated])
qed

text \<open>
  Claim C8 (as amended). For a non-empty question that neither begins nor ends with
  whitespace, under the scoring of section 4.5 (2 per tag that is a substring of the
  lower-cased question, 1 per whitespace-delimited token of the lower-cased question that
  is a substring of the lower-cased FAQ question): when no FAQ scores above 0 the bot
  returns the fallback answer and the first three FAQs of the corpus; otherwise it returns
  the answer of the first FAQ in corpus order that has the highest score, and as related
  the next up to three FAQs of the ranking of the FAQs that score above 0 (descending
  score, equal scores in corpus order). FAQs that score 0 are not in that ranking.
\<close>

theorem C8_bot_answer:
  assumes "q \<noteq> []" and "\<not> is_space (hd q)" and "\<not> is_space (last q)"
  shows "(list_all (\<lambda>f. faqScore_spec (toLowerCase q) f = 0) faqs \<longrightarrow>
            botAsk faqs q = Inr (fallbackAnswer, map FullFAQ (take 3 faqs)))
     \<and> (\<not> list_all (\<lambda>f. faqScore_spec (toLowerCase q) f = 0) faqs \<longrightarrow>
          (\<exists>best rest. rankedMatches faqs (toLowerCase q) = best # rest
             \<and> find (\<lambda>f. \<forall>g \<in> set faqs.
                         faqScore_spec (toLowerCase q) g \<le> faqScore_spec (toLowerCase q) f) faqs
                 = Some best
             \<and> botAsk faqs q =
                 Inr (answer best, map (\<lambda>f. QuestionAnswer (question f) (answer f)) (take 3 rest))))
     \<and> sorted (map (\<lambda>f. - int (faqScore_spec (toLowerCase q) f)) (rankedMatches faqs (toLowerCase q)))
     \<and> (\<forall>k. filter (\<lambda>f. faqScore_spec (toLowerCase q) f = k) (rankedMatches faqs (toLowerCase q))
             = filter (\<lambda>f. faqScore_spec (toLowerCase q) f = k \<and> 0 < k) faqs)"
  using botAsk_ranked[OF assms(1) faqScore_spec_faqs[OF assms]]
  by (simp add: rankedMatches_def rankedBy_sorted rankedBy_stable)

text \<open>Evaluation of the matcher on the corpus of the source.\<close>

lemma lower_Q:
  "toLowerCase ''What CGPA do I need for eligibility?'' = ''what cgpa do i need for eligibility?''"
  by code_simp

lemma lower_cgpa: "toLowerCase ''cgpa'' = ''cgpa''"
  by code_simp

lemma lower_zzz: "toLowerCase ''zzz'' = ''zzz''"
  by code_simp

lemma lower_zzz_space: "toLowerCase ''zzz '' = ''zzz ''"
  by code_simp

lemma trimmed_Q:
  "\<not> is_space (hd ''What CGPA do I need for eligibility?'')
   \<and> \<not> is_space (last ''What CGPA do I need for eligibility?'')"
  by code_simp

lemma trimmed_zzz: "\<not> is_space (hd ''zzz'') \<and> \<not> is_space (last ''zzz'')"
  by code_simp

lemma spec_scores_Q:
  "map (faqScore_spec ''what cgpa do i need for eligibility?'') faqs = [7, 3, 1, 1, 2]"
  by code_simp

lemma spec_scores_cgpa: "map (faqScore_spec ''cgpa'') faqs = [3, 0, 0, 0, 0]"
  by code_simp

lemma spec_scores_zzz: "map (faqScore_spec ''zzz'') faqs = [0, 0, 0, 0, 0]"
  by code_simp

lemma spec_scores_zzz_space: "map (faqScore_spec ''zzz '') faqs = [0, 0, 0, 0, 0]"
  by code_simp

lemma scores_cgpa: "map (faqScore ''cgpa'') faqs = [3, 0, 0, 0, 0]"
  by code_simp

lemma scores_zzz_space: "map (faqScore ''zzz '') faqs = [1, 1, 1, 1, 1]"
  by code_simp

lemma pair_with_zip: "map (\<lambda>x. (x, g x)) xs = zip xs (map g xs)"
  by (induction xs) auto

lemma sort_key_via_pairs: "sort_key k xs = map fst (sort_key snd (zip xs (map k xs)))"
proof -
  have "sort_key snd (map (\<lambda>x. (x, k x)) xs) = map (\<lambda>x. (x, k x)) (sort_key k xs)"
    by (simp add: sort_key_map)
  then show ?thesis by (simp add: pair_with_zip[symmetric] comp_def)
qed

lemma rankedBy_via_pairs:
  "rankedBy sc xs =
     map fst (sort_key (\<lambda>(x, n). - int n) (filter (\<lambda>(x, n). 0 < n) (zip xs (map sc xs))))"
proof -
  have "sort_key (\<lambda>(x, n). - int n) (filter (\<lambda>(x, n). 0 < n) (map (\<lambda>x. (x, sc x)) xs))
          = map (\<lambda>x. (x, sc x)) (rankedBy sc xs)"
    by (simp add: rankedBy_def filter_map comp_def sort_key_map)
  then show ?thesis by (simp add: pair_with_zip[symmetric] comp_def)
qed

lemma faqs_elems: "faqs = [faqs ! 0, faqs ! 1, faqs ! 2, faqs ! 3, faqs ! 4]"
  by (simp add: faqs_def)

lemma zip_faqs:
  "zip faqs [a, b, c, d, e] = [(faqs ! 0, a), (faqs ! 1, b), (faqs ! 2, c), (faqs ! 3, d), (faqs ! 4, e)]"
  by (subst faqs_elems) simp

lemma take3_faqs: "take 3 faqs = [faqs ! 0, faqs ! 1, faqs ! 2]"
  by (subst faqs_elems) simp

lemma ranked_Q:
  "rankedMatches faqs ''what cgpa do i need for eligibility?''
     = [faqs ! 0, faqs ! 1, faqs ! 4, faqs ! 2, faqs ! 3]"
  by (simp add: rankedMatches_def rankedBy_via_pairs spec_scores_Q zip_faqs)

lemma matched_cgpa: "matchedFAQs faqs ''cgpa'' = [(faqs ! 0, 3)]"
  by (simp add: matchedFAQs_def pair_with_zip scores_cgpa zip_faqs)

lemma matched_zzz_space:
  "matchedFAQs faqs ''zzz '' = [(faqs ! 0, 1), (faqs ! 1, 1), (faqs ! 2, 1), (faqs ! 3, 1), (faqs ! 4, 1)]"
  by (simp add: matchedFAQs_def pair_with_zip scores_zzz_space zip_faqs)

lemma ranked_spec_cgpa:
  "rankedFAQs_spec faqs ''cgpa'' = [faqs ! 0, faqs ! 1, faqs ! 2, faqs ! 3, faqs ! 4]"
proof -
  have "map (\<lambda>f. - int (faqScore_spec ''cgpa'' f)) faqs
          = map (\<lambda>n. - int n) (map (faqScore_spec ''cgpa'') faqs)"
    by (simp add: comp_def)
  also have "\<dots> = [- 3, 0, 0, 0, 0]"
    by (simp only: spec_scores_cgpa) simp
  finally have "map (\<lambda>f. - int (faqScore_spec ''cgpa'' f)) faqs = [- 3, 0, 0, 0, 0]" .
  then show ?thesis
    by (simp add: rankedFAQs_spec_def sort_key_via_pairs[of _ faqs] zip_faqs)
qed

lemma all_zero_scores_spec:
  "list_all (\<lambda>f. faqScore_spec query f = 0) corpus
     = list_all (\<lambda>n. n = 0) (map (faqScore_spec query) corpus)"
  by (simp add: list_all_iff)

theorem C8_bot_answer_witness:
  "''zzz'' \<noteq> [] \<and> \<not> is_space (hd ''zzz'') \<and> \<not> is_space (last ''zzz'')
   \<and> list_all (\<lambda>f. faqScore_spec (toLowerCase ''zzz'') f = 0) faqs
   \<and> botAsk faqs ''zzz'' = Inr (fallbackAnswer, map FullFAQ (take 3 faqs))
   \<and> \<not> is_space (hd ''What CGPA do I need for eligibility?'')
   \<and> \<not> is_space (last ''What CGPA do I need for eligibility?'')
   \<and> \<not> list_all (\<lambda>f. faqScore_spec (toLowerCase ''What CGPA do I need for eligibility?'') f = 0) faqs
   \<and> find (\<lambda>f. \<forall>g \<in> set faqs.
               faqScore_spec (toLowerCase ''What CGPA do I need for eligibility?'') g
                 \<le> faqScore_spec (toLowerCase ''What CGPA do I need for eligibility?'') f) faqs
       = Some (faqs ! 0)
   \<and> botAsk faqs ''What CGPA do I need for eligibility?'' =
       Inr (answer (faqs ! 0),
            [QuestionAnswer (question (faqs ! 1)) (answer (faqs ! 1)),
             QuestionAnswer (question (faqs ! 4)) (answer (faqs ! 4)),
             QuestionAnswer (question (faqs ! 2)) (answer (faqs ! 2))])"
proof -
  let ?Q = "''What CGPA do I need for eligibility?''"
  have z: "list_all (\<lambda>f. faqScore_spec (toLowerCase ''zzz'') f = 0) faqs"
    by (simp only: all_zero_scores_spec lower_zzz spec_scores_zzz) simp
  have nz: "\<not> list_all (\<lambda>f. faqScore_spec (toLowerCase ?Q) f = 0) faqs"
    by (simp only: all_zero_scores_spec lower_Q spec_scores_Q) simp
  have rk: "rankedMatches faqs (toLowerCase ?Q) = [faqs ! 0, faqs ! 1, faqs ! 4, faqs ! 2, faqs ! 3]"
    by (simp only: lower_Q ranked_Q)
  have ne: "''zzz'' \<noteq> []" and neQ: "?Q \<noteq> []" by simp_all
  have tz: "\<not> is_space (hd ''zzz'')" "\<not> is_space (last ''zzz'')"
    using trimmed_zzz by blast+
  have tQ: "\<not> is_space (hd ?Q)" "\<not> is_space (last ?Q)"
    using trimmed_Q by blast+
  have fb: "botAsk faqs ''zzz'' = Inr (fallbackAnswer, map FullFAQ (take 3 faqs))"
    using C8_bot_answer[OF ne tz] z by blast
  obtain best rest where br: "rankedMatches faqs (toLowerCase ?Q) = best # rest"
      and fi: "find (\<lambda>f. \<forall>g \<in> set faqs.
                 faqScore_spec (toLowerCase ?Q) g \<le> faqScore_spec (toLowerCase ?Q) f) faqs
                = Some best"
      and ans: "botAsk faqs ?Q =
                 Inr (answer best, map (\<lambda>f. QuestionAnswer (question f) (answer f)) (take 3 rest))"
    using C8_bot_answer[OF neQ tQ] nz by blast
  have b: "best = faqs ! 0" and r: "rest = [faqs ! 1, faqs ! 4, faqs ! 2, faqs ! 3]"
    using br rk by simp_all
  show ?thesis
    using z nz fb fi ans tz tQ unfolding b r by simp
qed

text \<open>
  Counterexamples to C8 as stated. For the question "cgpa" only the first FAQ scores
  above 0: the bot returns its answer with no related FAQ, where ranking all FAQs gives
  the second, third and fourth FAQ as the next three. For the question "zzz " (with a
  space at the end) no FAQ scores above 0, yet the bot does not return the fallback: the
  split leaves an empty piece after the space, and every FAQ question includes the empty
  string.
\<close>

theorem C8_related_counterexample:
  "''cgpa'' \<noteq> [] \<and> faqScore_spec (toLowerCase ''cgpa'') (faqs ! 0) = 3
   \<and> botAsk faqs ''cgpa'' = Inr (answer (faqs ! 0), [])
   \<and> botAsk_spec faqs ''cgpa'' =
       Inr (answer (faqs ! 0),
            [QuestionAnswer (question (faqs ! 1)) (answer (faqs ! 1)),
             QuestionAnswer (question (faqs ! 2)) (answer (faqs ! 2)),
             QuestionAnswer (question (faqs ! 3)) (answer (faqs ! 3))])
   \<and> botAsk faqs ''cgpa'' \<noteq> botAsk_spec faqs ''cgpa''
   \<and> ''zzz '' \<noteq> []
   \<and> list_all (\<lambda>f. faqScore_spec (toLowerCase ''zzz '') f = 0) faqs
   \<and> botAsk_spec faqs ''zzz '' = Inr (fallbackAnswer, map FullFAQ (take 3 faqs))
   \<and> botAsk faqs ''zzz '' =
       Inr (answer (faqs ! 0),
            [QuestionAnswer (question (faqs ! 1)) (answer (faqs ! 1)),
             QuestionAnswer (question (faqs ! 2)) (answer (faqs ! 2)),
             QuestionAnswer (question (faqs ! 3)) (answer (faqs ! 3))])
   \<and> botAsk faqs ''zzz '' \<noteq> botAsk_spec faqs ''zzz ''"
proof -
  have s0: "faqScore_spec (toLowerCase ''cgpa'') (faqs ! 0) = 3"
  proof -
    have "map (faqScore_spec ''cgpa'') faqs ! 0 = 3" by (simp only: spec_scores_cgpa) simp
    moreover have "0 < length faqs" by (simp add: faqs_def)
    ultimately show ?thesis by (simp only: lower_cgpa nth_map)
  qed
  have a: "botAsk faqs ''cgpa'' = Inr (answer (faqs ! 0), [])"
    by (simp add: botAsk_def lower_cgpa matched_cgpa)
  have nz: "\<not> list_all (\<lambda>f. faqScore_spec ''cgpa'' f = 0) faqs"
    by (simp only: all_zero_scores_spec spec_scores_cgpa) simp
  have b: "botAsk_spec faqs ''cgpa'' =
       Inr (answer (faqs ! 0),
            [QuestionAnswer (question (faqs ! 1)) (answer (faqs ! 1)),
             QuestionAnswer (question (faqs ! 2)) (answer (faqs ! 2)),
             QuestionAnswer (question (faqs ! 3)) (answer (faqs ! 3))])"
    using nz by (simp add: botAsk_spec_def lower_cgpa ranked_spec_cgpa)
  have z: "list_all (\<lambda>f. faqScore_spec (toLowerCase ''zzz '') f = 0) faqs"
    by (simp only: all_zero_scores_spec lower_zzz_space spec_scores_zzz_space) simp
  have c: "botAsk_spec faqs ''zzz '' = Inr (fallbackAnswer, map FullFAQ (take 3 faqs))"
    using z by (simp add: botAsk_spec_def)
  have d: "botAsk faqs ''zzz '' =
       Inr (answer (faqs ! 0),
            [QuestionAnswer (question (faqs ! 1)) (answer (faqs ! 1)),
             QuestionAnswer (question (faqs ! 2)) (answer (faqs ! 2)),
             QuestionAnswer (question (faqs ! 3)) (answer (faqs ! 3))])"
    by (simp add: botAsk_def lower_zzz_space matched_zzz_space)
  have e: "botAsk faqs ''zzz '' \<noteq> botAsk_spec faqs ''zzz ''"
    unfolding c d by (simp add: take3_faqs)
  show ?thesis using s0 a b z c d e by simp
qed

end
